theory Spec2Isabelle
  imports Complex_Main "HOL-Library.Char_ord" "HOL-Library.List_Lexorder" "HOL-Library.Sublist"
begin

section \<open>Data model of the fraud detection service (main.py)\<close>

text \<open>
  Python ints are \<open>int\<close>, Python strings are byte strings (UTF-8). Every exception
  the code can meet is a value of \<open>fault\<close>; a function that can raise returns
  \<open>fault + 'a\<close>, with \<open>Inl\<close> for the raise.
\<close>

datatype fault = StoreUnavailable | GeocoderFailure | DistanceFailure | BadTimestamp | HTTP500

text \<open>
  A Python float (and a numpy \<open>float64\<close>) is a finite number, given by the real it
  denotes exactly, an infinity, or NaN. The operations that round (numpy's mean and
  standard deviation, subtraction, division) are not computed here: they are collaborators
  of the code, taken as they are (see \<open>env\<close> below). The operations that never round
  (the absolute value, the comparisons, the printing of a value) are defined.
\<close>

datatype float64 = Finite real | PosInf | NegInf | NaN

text \<open>Class \<open>Transaction\<close> (pydantic model, lines 79-86).\<close>

record transaction =
  transaction_id :: string
  timestamp :: string
  amount :: float64
  location :: string
  card_type :: string
  currency :: string
  recipient_account_number :: string

text \<open>
  The document that \<open>check_fraud_endpoint\<close> inserts into \<open>transactions_collection\<close>
  (lines 361-374): the transaction's fields and the assessment (the keys \<open>is_fraud\<close>,
  \<open>fraud_reasons\<close> and \<open>risk_score\<close> carry the prefix \<open>stored_\<close> here).
\<close>

record transaction_doc = transaction +
  stored_is_fraud :: bool
  stored_fraud_reasons :: "string list"
  stored_risk_score :: int
  checked_by :: string
  checked_at :: nat

text \<open>
  A document of \<open>blacklist_collection\<close>. \<open>added_at\<close> and \<open>reason\<close> are optional
  fields: \<open>initialize_blacklist\<close> never sets a reason.
\<close>

record blacklist_doc =
  bl_type :: string
  bl_value :: string
  added_at :: "nat option"
  reason :: "string option"

text \<open>The two MongoDB collections the engine reads and writes, in insertion order.\<close>

record store =
  transactions_collection :: "transaction_doc list"
  blacklist_collection :: "blacklist_doc list"

text \<open>What \<open>datetime.strptime\<close> returns.\<close>

record datetime =
  year :: nat
  month :: nat
  day :: nat
  hour :: nat
  minute :: nat
  second :: nat

type_synonym coords = "real \<times> real"

text \<open>
  The collaborators outside the repository, and which of their calls fail:
  the MongoDB driver (a lookup, a query, a write can raise; \<open>sort("timestamp", -1)\<close>
  orders the documents a query matched, and the order it gives to documents with equal
  timestamps is the server's), \<open>np.mean\<close> and \<open>np.std\<close>, the float64 subtraction
  and division, the Nominatim geocoder (\<open>geocode\<close> returns a place, nothing, or raises),
  geopy's \<open>geodesic\<close>, \<open>datetime.strptime\<close> with the format
  \<open>%Y-%m-%d %H:%M:%S\<close>, and the two readings of the clock that
  \<open>check_fraud_endpoint\<close> takes.
\<close>

record env =
  blacklist_lookup_fails :: "string \<Rightarrow> string \<Rightarrow> bool"
  history_query_fails :: "string \<Rightarrow> bool"
  sort_newest_first :: "transaction_doc list \<Rightarrow> transaction_doc list"
  np_mean :: "float64 list \<Rightarrow> float64"
  np_std :: "float64 list \<Rightarrow> float64"
  float_sub :: "float64 \<Rightarrow> float64 \<Rightarrow> float64"
  float_div :: "float64 \<Rightarrow> float64 \<Rightarrow> float64"
  geocode :: "string \<Rightarrow> fault + coords option"
  geodesic_km :: "coords \<Rightarrow> coords \<Rightarrow> fault + real"
  strptime :: "string \<Rightarrow> fault + datetime"
  insert_fails :: bool
  update_fails :: bool
  now_checked_at :: nat
  now_added_at :: nat

section \<open>Store operations\<close>

text \<open>\<open>blacklist_collection.find_one({"type": k, "value": v})\<close>: the first matching document.\<close>

definition blacklist_find_one ::
  "env \<Rightarrow> store \<Rightarrow> string \<Rightarrow> string \<Rightarrow> fault + blacklist_doc option" where
  "blacklist_find_one e st k v =
     (if blacklist_lookup_fails e k v then Inl StoreUnavailable
      else Inr (find (\<lambda>d. bl_type d = k \<and> bl_value d = v) (blacklist_collection st)))"

text \<open>
  \<open>transactions_collection.find({"card_type": ct}).sort("timestamp", -1)\<close>: the documents
  of that card type, in the order the server's sort gives them.
\<close>

definition find_by_card_type ::
  "env \<Rightarrow> transaction_doc list \<Rightarrow> string \<Rightarrow> transaction_doc list" where
  "find_by_card_type e docs ct = sort_newest_first e (filter (\<lambda>d. card_type d = ct) docs)"

text \<open>
  What the server's sort is bound to, on the documents a query matched: it returns these
  documents, ordered by timestamp, newest first. Timestamps are stored as strings and
  compared as such.
\<close>

definition sorts_newest_first :: "env \<Rightarrow> transaction_doc list \<Rightarrow> bool" where
  "sorts_newest_first e docs =
     (set (sort_newest_first e docs) = set docs \<and>
      sorted (rev (map timestamp (sort_newest_first e docs))))"

definition find_recent ::
  "env \<Rightarrow> store \<Rightarrow> string \<Rightarrow> nat \<Rightarrow> fault + transaction_doc list" where
  "find_recent e st ct n =
     (if history_query_fails e ct then Inl StoreUnavailable
      else Inr (take n (find_by_card_type e (transactions_collection st) ct)))"

definition find_last :: "env \<Rightarrow> store \<Rightarrow> string \<Rightarrow> fault + transaction_doc option" where
  "find_last e st ct =
     (if history_query_fails e ct then Inl StoreUnavailable
      else Inr (case find_by_card_type e (transactions_collection st) ct of
                  [] \<Rightarrow> None | d # _ \<Rightarrow> Some d))"

text \<open>
  \<open>update_one(filter, {"$set": fields}, upsert=True)\<close> on the blacklist: the first
  document matching the filter on (type, value) gets the fields; when none matches, a
  new document is inserted, made of the filter's fields and the fields set.
\<close>

fun update_one ::
  "string \<Rightarrow> string \<Rightarrow> (blacklist_doc \<Rightarrow> blacklist_doc) \<Rightarrow> blacklist_doc list \<Rightarrow> blacklist_doc list"
where
  "update_one k v upd [] =
     [upd \<lparr>bl_type = k, bl_value = v, added_at = None, reason = None\<rparr>]"
| "update_one k v upd (d # ds) =
     (if bl_type d = k \<and> bl_value d = v then upd d # ds else d # update_one k v upd ds)"

section \<open>The evaluators\<close>

text \<open>\<open>get_coordinates\<close> (lines 139-148): a geocoder fault is logged and becomes \<open>None\<close>.\<close>

definition get_coordinates :: "env \<Rightarrow> string \<Rightarrow> coords option" where
  "get_coordinates e loc =
     (case geocode e loc of
        Inl _ \<Rightarrow> None
      | Inr location_data \<Rightarrow> location_data)"

text \<open>\<open>calculate_distance\<close> (lines 150-161).\<close>

definition calculate_distance :: "env \<Rightarrow> string \<Rightarrow> string \<Rightarrow> real" where
  "calculate_distance e loc1 loc2 =
     (case (get_coordinates e loc1, get_coordinates e loc2) of
        (Some coords1, Some coords2) \<Rightarrow>
          (case geodesic_km e coords1 coords2 of Inl _ \<Rightarrow> 0 | Inr km \<Rightarrow> km)
      | _ \<Rightarrow> 0)"

text \<open>\<open>is_odd_hour\<close> (lines 163-171).\<close>

definition is_odd_hour :: "env \<Rightarrow> string \<Rightarrow> bool" where
  "is_odd_hour e timestamp_str =
     (case strptime e timestamp_str of
        Inl _ \<Rightarrow> False
      | Inr dt \<Rightarrow> 0 \<le> hour dt \<and> hour dt \<le> 4)"

text \<open>
  The float operations of \<open>calculate_z_score\<close> and \<open>detect_fraud\<close> that never round:
  \<open>abs\<close>, the test \<open>std_amount == 0\<close> and the test \<open>z_score > 2\<close>. A comparison
  with NaN is false.
\<close>

fun float_abs :: "float64 \<Rightarrow> float64" where
  "float_abs (Finite x) = Finite \<bar>x\<bar>"
| "float_abs PosInf = PosInf"
| "float_abs NegInf = PosInf"
| "float_abs NaN = NaN"

fun float_is_zero :: "float64 \<Rightarrow> bool" where
  "float_is_zero (Finite x) = (x = 0)"
| "float_is_zero _ = False"

fun float_gt :: "float64 \<Rightarrow> real \<Rightarrow> bool" where
  "float_gt (Finite x) c = (c < x)"
| "float_gt PosInf c = True"
| "float_gt NegInf c = False"
| "float_gt NaN c = False"

text \<open>
  \<open>calculate_z_score\<close> (lines 173-197). The \<open>return 0\<close> of the early exits is the
  number 0.
\<close>

definition calculate_z_score :: "env \<Rightarrow> store \<Rightarrow> float64 \<Rightarrow> string \<Rightarrow> float64" where
  "calculate_z_score e st current_amount ct =
     (case find_recent e st ct 5 of
        Inl _ \<Rightarrow> Finite 0
      | Inr recent_transactions \<Rightarrow>
          if length recent_transactions < 2 then Finite 0
          else
            let amounts = map amount recent_transactions;
                mean_amount = np_mean e amounts;
                std_amount = np_std e amounts
            in if float_is_zero std_amount then Finite 0
               else float_abs (float_div e (float_sub e current_amount mean_amount) std_amount))"

text \<open>\<open>check_geographic_drift\<close> (lines 199-217).\<close>

definition check_geographic_drift :: "env \<Rightarrow> store \<Rightarrow> string \<Rightarrow> string \<Rightarrow> bool" where
  "check_geographic_drift e st loc ct =
     (case find_last e st ct of
        Inl _ \<Rightarrow> False
      | Inr None \<Rightarrow> False
      | Inr (Some last_transaction) \<Rightarrow>
          calculate_distance e loc (location last_transaction) > 500)"

section \<open>Formatting the z-score\<close>

text \<open>
  \<open>f"{z_score:.2f}"\<close>: the value rounded to two decimals (a tie goes to the even
  neighbour), printed in decimal with exactly two fractional digits; an infinity prints
  as \<open>inf\<close>, NaN as \<open>nan\<close>.
\<close>

definition round_half_even :: "real \<Rightarrow> int" where
  "round_half_even x =
     (let f = \<lfloor>x\<rfloor>; d = x - of_int f
      in if d < 1 / 2 then f else if 1 / 2 < d then f + 1
         else if even f then f else f + 1)"

definition digit_char :: "nat \<Rightarrow> char" where
  "digit_char d = ''0123456789'' ! (d mod 10)"

fun decimal :: "nat \<Rightarrow> string" where
  "decimal n = (if n < 10 then [digit_char n] else decimal (n div 10) @ [digit_char (n mod 10)])"

definition format_2f :: "real \<Rightarrow> string" where
  "format_2f z =
     (let n = nat (round_half_even (\<bar>z\<bar> * 100))
      in (if z < 0 then ''-'' else '''') @ decimal (n div 100) @ ''.'' @
         [digit_char (n mod 100 div 10), digit_char (n mod 10)])"

fun format_float :: "float64 \<Rightarrow> string" where
  "format_float (Finite x) = format_2f x"
| "format_float PosInf = ''inf''"
| "format_float NegInf = ''-inf''"
| "format_float NaN = ''nan''"

section \<open>The engine\<close>

text \<open>
  \<open>detect_fraud\<close> (lines 219-258). The two blacklist lookups are not inside any
  \<open>try\<close>: a fault of the store leaves the function as an exception. \<open>if client_ip:\<close>
  is false for \<open>None\<close> and for the empty string; \<open>if blacklisted_ip:\<close> is true for any
  document found.
\<close>

definition detect_fraud ::
  "env \<Rightarrow> store \<Rightarrow> transaction \<Rightarrow> string option \<Rightarrow> fault + (bool \<times> string list \<times> int)" where
  "detect_fraud e st t client_ip =
     (let fraud_reasons = []; risk_score = 0 in
      case (case client_ip of
              None \<Rightarrow> Inr (fraud_reasons, risk_score)
            | Some ip \<Rightarrow>
                if ip = [] then Inr (fraud_reasons, risk_score)
                else (case blacklist_find_one e st ''ip'' ip of
                        Inl x \<Rightarrow> Inl x
                      | Inr None \<Rightarrow> Inr (fraud_reasons, risk_score)
                      | Inr (Some _) \<Rightarrow>
                          Inr (fraud_reasons @ [''Blacklisted IP address''], risk_score + 30))) of
        Inl x \<Rightarrow> Inl x
      | Inr (fraud_reasons, risk_score) \<Rightarrow>
         (case blacklist_find_one e st ''account'' (recipient_account_number t) of
            Inl x \<Rightarrow> Inl x
          | Inr blacklisted_account \<Rightarrow>
              let (fraud_reasons, risk_score) =
                    (if blacklisted_account \<noteq> None
                     then (fraud_reasons @ [''Blacklisted recipient account''], risk_score + 40)
                     else (fraud_reasons, risk_score));
                  (fraud_reasons, risk_score) =
                    (if is_odd_hour e (timestamp t)
                     then (fraud_reasons @ [''Transaction at odd hours (12 AM - 4 AM)''],
                           risk_score + 15)
                     else (fraud_reasons, risk_score));
                  z_score = calculate_z_score e st (amount t) (card_type t);
                  (fraud_reasons, risk_score) =
                    (if float_gt z_score 2
                     then (fraud_reasons @
                             [''Abnormal transaction amount (z-score: '' @
                                format_float z_score @ '')''],
                           risk_score + 20)
                     else (fraud_reasons, risk_score));
                  (fraud_reasons, risk_score) =
                    (if check_geographic_drift e st (location t) (card_type t)
                     then (fraud_reasons @
                             [''Geographic drift detected (>500km from last location)''],
                           risk_score + 25)
                     else (fraud_reasons, risk_score));
                  is_fraud = (length fraud_reasons > 0 \<or> risk_score \<ge> 30)
              in Inr (is_fraud, fraud_reasons, risk_score)))"

text \<open>
  \<open>TransactionResponse\<close> (lines 88-98); its \<open>risk_score\<close> is a float, so the integer
  score is converted.
\<close>

record transaction_response = transaction +
  resp_is_fraud :: bool
  resp_fraud_reasons :: "string list"
  resp_risk_score :: real

text \<open>
  \<open>check_fraud_endpoint\<close> (lines 350-413), after the token has been verified. It calls
  \<open>detect_fraud(transaction)\<close> with no \<open>client_ip\<close>, stores the transaction, and on a
  positive verdict upserts the recipient account into the blacklist. Any exception becomes
  the HTTP error 500; what was written before it stays written, so the store is returned
  beside the outcome.
\<close>

definition check_fraud_endpoint ::
  "env \<Rightarrow> store \<Rightarrow> transaction \<Rightarrow> string \<Rightarrow> store \<times> (fault + transaction_response)" where
  "check_fraud_endpoint e st t username =
     (case detect_fraud e st t None of
        Inl _ \<Rightarrow> (st, Inl HTTP500)
      | Inr (is_fraud, fraud_reasons, risk_score) \<Rightarrow>
          if insert_fails e then (st, Inl HTTP500)
          else
            let transaction_doc =
                  \<lparr>transaction_id = transaction_id t, timestamp = timestamp t,
                   amount = amount t, location = location t, card_type = card_type t,
                   currency = currency t,
                   recipient_account_number = recipient_account_number t,
                   stored_is_fraud = is_fraud, stored_fraud_reasons = fraud_reasons,
                   stored_risk_score = risk_score, checked_by = username,
                   checked_at = now_checked_at e\<rparr>;
                st1 = st\<lparr>transactions_collection :=
                           transactions_collection st @ [transaction_doc]\<rparr>;
                response =
                  \<lparr>transaction_id = transaction_id t, timestamp = timestamp t,
                   amount = amount t, location = location t, card_type = card_type t,
                   currency = currency t,
                   recipient_account_number = recipient_account_number t,
                   resp_is_fraud = is_fraud, resp_fraud_reasons = fraud_reasons,
                   resp_risk_score = of_int risk_score\<rparr>
            in if is_fraud then
                 if update_fails e then (st1, Inl HTTP500)
                 else
                   (st1\<lparr>blacklist_collection :=
                          update_one ''account'' (recipient_account_number t)
                            (\<lambda>d. d\<lparr>bl_type := ''account'',
                                   bl_value := recipient_account_number t,
                                   added_at := Some (now_added_at e),
                                   reason := Some ''Fraudulent transaction detected''\<rparr>)
                            (blacklist_collection st1)\<rparr>,
                    Inr response)
               else (st1, Inr response))"

section \<open>Findings\<close>

text \<open>
  A finding is a reason text with its point value. \<open>findings\<close> lists, in the order of
  the checks of \<open>detect_fraud\<close>, the findings whose condition holds; \<open>listed\<close> is the
  test \<open>if blacklisted_account:\<close> on the document \<open>find_one\<close> returns.
\<close>

definition listed :: "store \<Rightarrow> string \<Rightarrow> string \<Rightarrow> bool" where
  "listed st k v =
     (find (\<lambda>d. bl_type d = k \<and> bl_value d = v) (blacklist_collection st) \<noteq> None)"

definition ip_listed :: "store \<Rightarrow> string option \<Rightarrow> bool" where
  "ip_listed st client_ip =
     (case client_ip of None \<Rightarrow> False | Some ip \<Rightarrow> ip \<noteq> [] \<and> listed st ''ip'' ip)"

text \<open>The blacklist lookups that \<open>detect_fraud\<close> performs, and whether one raises.\<close>

definition ip_lookup_raises :: "env \<Rightarrow> string option \<Rightarrow> bool" where
  "ip_lookup_raises e client_ip =
     (case client_ip of
        None \<Rightarrow> False
      | Some ip \<Rightarrow> ip \<noteq> [] \<and> blacklist_lookup_fails e ''ip'' ip)"

definition account_lookup_raises :: "env \<Rightarrow> transaction \<Rightarrow> bool" where
  "account_lookup_raises e t =
     blacklist_lookup_fails e ''account'' (recipient_account_number t)"

definition z_reason :: "float64 \<Rightarrow> string" where
  "z_reason z = ''Abnormal transaction amount (z-score: '' @ format_float z @ '')''"

definition findings ::
  "env \<Rightarrow> store \<Rightarrow> transaction \<Rightarrow> string option \<Rightarrow> (string \<times> int) list" where
  "findings e st t client_ip =
     (if ip_listed st client_ip then [(''Blacklisted IP address'', 30)] else []) @
     (if listed st ''account'' (recipient_account_number t)
      then [(''Blacklisted recipient account'', 40)] else []) @
     (if is_odd_hour e (timestamp t)
      then [(''Transaction at odd hours (12 AM - 4 AM)'', 15)] else []) @
     (if float_gt (calculate_z_score e st (amount t) (card_type t)) 2
      then [(z_reason (calculate_z_score e st (amount t) (card_type t)), 20)] else []) @
     (if check_geographic_drift e st (location t) (card_type t)
      then [(''Geographic drift detected (>500km from last location)'', 25)] else [])"

text \<open>
  The weight table of the specification, read off a reason text: IP 30, account 40,
  odd hour 15, amount anomaly 20 (whatever z-score the text carries), drift 25.
\<close>

definition finding_weight :: "string \<Rightarrow> int" where
  "finding_weight r =
     (if r = ''Blacklisted IP address'' then 30
      else if r = ''Blacklisted recipient account'' then 40
      else if r = ''Transaction at odd hours (12 AM - 4 AM)'' then 15
      else if prefix ''Abnormal transaction amount (z-score: '' r then 20
      else if r = ''Geographic drift detected (>500km from last location)'' then 25
      else 0)"

text \<open>
  The engine with the verdict collapsed to "any finding at all", as the specification
  words the simplified rule.
\<close>

definition detect_fraud_any_finding ::
  "env \<Rightarrow> store \<Rightarrow> transaction \<Rightarrow> string option \<Rightarrow> fault + (bool \<times> string list \<times> int)" where
  "detect_fraud_any_finding e st t client_ip =
     (case detect_fraud e st t client_ip of
        Inl x \<Rightarrow> Inl x
      | Inr (_, reasons, score) \<Rightarrow> Inr (reasons \<noteq> [], reasons, score))"

section \<open>A worked scenario\<close>

text \<open>
  Two earlier Visa payments in Chennai, of 1 and 3; one blacklisted IP address and one
  blacklisted account, as \<open>initialize_blacklist\<close> leaves them; collaborators that answer
  for a few known inputs. \<open>night_transfer\<close> triggers every check, \<open>day_purchase\<close> none.

  The mean and the population standard deviation (the divisor is the number of values,
  as \<open>np.std\<close> has it by default) as exact numbers, and the answers of the float
  collaborators on the values of this scenario: the amounts are small integers and 4.5,
  and on them every sum, mean, square, square root and quotient that \<open>np.mean\<close>,
  \<open>np.std\<close> and \<open>calculate_z_score\<close> form is again such a number, so float64
  rounds nothing. The sort is a stable one; in the scenario no two transactions of a card
  type share a timestamp.
\<close>

definition exact_mean :: "real list \<Rightarrow> real" where
  "exact_mean xs = sum_list xs / real (length xs)"

definition population_std :: "real list \<Rightarrow> real" where
  "population_std xs = sqrt (exact_mean (map (\<lambda>x. \<bar>x - exact_mean xs\<bar> ^ 2) xs))"

fun finite_value :: "float64 \<Rightarrow> real option" where
  "finite_value (Finite x) = Some x"
| "finite_value _ = None"

definition scenario_mean :: "float64 list \<Rightarrow> float64" where
  "scenario_mean xs =
     (case those (map finite_value xs) of
        None \<Rightarrow> NaN
      | Some rs \<Rightarrow> if rs = [] then NaN else Finite (exact_mean rs))"

definition scenario_std :: "float64 list \<Rightarrow> float64" where
  "scenario_std xs =
     (case those (map finite_value xs) of
        None \<Rightarrow> NaN
      | Some rs \<Rightarrow> if rs = [] then NaN else Finite (population_std rs))"

fun scenario_sub :: "float64 \<Rightarrow> float64 \<Rightarrow> float64" where
  "scenario_sub (Finite x) (Finite y) = Finite (x - y)"
| "scenario_sub _ _ = NaN"

fun scenario_div :: "float64 \<Rightarrow> float64 \<Rightarrow> float64" where
  "scenario_div (Finite x) (Finite y) = (if y = 0 then NaN else Finite (x / y))"
| "scenario_div _ _ = NaN"

definition scenario_sort :: "transaction_doc list \<Rightarrow> transaction_doc list" where
  "scenario_sort docs = rev (sort_key timestamp (rev docs))"

definition history_doc :: "string \<Rightarrow> real \<Rightarrow> string \<Rightarrow> string \<Rightarrow> transaction_doc" where
  "history_doc ts a loc ct =
     \<lparr>transaction_id = ''T-old'', timestamp = ts, amount = Finite a, location = loc,
      card_type = ct,
      currency = ''USD'', recipient_account_number = ''ACC000000001'',
      stored_is_fraud = False, stored_fraud_reasons = [], stored_risk_score = 0,
      checked_by = ''alice'', checked_at = 0\<rparr>"

definition sample_store :: store where
  "sample_store =
     \<lparr>transactions_collection =
        [history_doc ''2024-03-08 10:00:00'' 1 ''Chennai'' ''visa'',
         history_doc ''2024-03-09 10:00:00'' 3 ''Chennai'' ''visa''],
      blacklist_collection =
        [\<lparr>bl_type = ''ip'', bl_value = ''192.168.1.100'', added_at = Some 0, reason = None\<rparr>,
         \<lparr>bl_type = ''account'', bl_value = ''ACC123456789'', added_at = Some 0,
          reason = None\<rparr>]\<rparr>"

definition sample_env :: env where
  "sample_env =
     \<lparr>blacklist_lookup_fails = (\<lambda>k v. False),
      history_query_fails = (\<lambda>ct. False),
      sort_newest_first = scenario_sort,
      np_mean = scenario_mean, np_std = scenario_std,
      float_sub = scenario_sub, float_div = scenario_div,
      geocode = (\<lambda>loc. if loc = ''Chennai'' then Inr (Some (13, 80))
                       else if loc = ''Delhi'' then Inr (Some (28, 77))
                       else if loc = ''Nowhere'' then Inr None
                       else Inl GeocoderFailure),
      geodesic_km = (\<lambda>a b. if a = b then Inr 0
                         else if a = (28, 77) \<and> b = (13, 80) then Inr (168972 / 100)
                         else Inl DistanceFailure),
      strptime = (\<lambda>s. if s = ''2024-03-10 03:15:00''
                        then Inr \<lparr>year = 2024, month = 3, day = 10,
                                  hour = 3, minute = 15, second = 0\<rparr>
                      else if s = ''2024-03-10 14:30:00''
                        then Inr \<lparr>year = 2024, month = 3, day = 10,
                                  hour = 14, minute = 30, second = 0\<rparr>
                      else Inl BadTimestamp),
      insert_fails = False, update_fails = False,
      now_checked_at = 1000, now_added_at = 1001\<rparr>"

definition night_transfer :: transaction where
  "night_transfer =
     \<lparr>transaction_id = ''T-1'', timestamp = ''2024-03-10 03:15:00'',
      amount = Finite (9 / 2),
      location = ''Delhi'', card_type = ''visa'', currency = ''USD'',
      recipient_account_number = ''ACC123456789''\<rparr>"

definition day_purchase :: transaction where
  "day_purchase =
     \<lparr>transaction_id = ''T-2'', timestamp = ''2024-03-10 14:30:00'',
      amount = Finite 2,
      location = ''Chennai'', card_type = ''visa'', currency = ''USD'',
      recipient_account_number = ''ACC000000001''\<rparr>"

text \<open>
  The odd-hour reason as the specification prints it, with an en dash (U+2013, three
  bytes in UTF-8) where the code has a hyphen.
\<close>

definition spec_odd_hour_text :: string where
  "spec_odd_hour_text =
     ''Transaction at odd hours (12 AM '' @ [CHR 0xE2, CHR 0x80, CHR 0x93] @ '' 4 AM)''"

text \<open>The same collaborators with MongoDB unreachable: every lookup and query raises.\<close>

definition outage_env :: env where
  "outage_env =
     sample_env\<lparr>blacklist_lookup_fails := (\<lambda>k v. True),
                history_query_fails := (\<lambda>ct. True)\<rparr>"

text \<open>
  The same collaborators with the history queries and the geocoder failing, the blacklist
  lookups answering; and the night transfer with a timestamp that is not in the format
  (a \<open>T\<close> for the space, no seconds), which \<open>strptime\<close> refuses.
\<close>

definition degraded_env :: env where
  "degraded_env =
     sample_env\<lparr>history_query_fails := (\<lambda>ct. True),
                geocode := (\<lambda>loc. Inl GeocoderFailure)\<rparr>"

definition garbled_transfer :: transaction where
  "garbled_transfer = night_transfer\<lparr>transaction_id := ''T-7'', timestamp := ''2024-03-10T03:15''\<rparr>"

text \<open>The store with every blacklist entry of one account removed.\<close>

definition without_account :: "store \<Rightarrow> string \<Rightarrow> store" where
  "without_account st v =
     st\<lparr>blacklist_collection :=
          filter (\<lambda>d. \<not> (bl_type d = ''account'' \<and> bl_value d = v))
            (blacklist_collection st)\<rparr>"

text \<open>Two more transactions: one on a card type with no history, one from a place the
  geocoder does not know.\<close>

definition amex_purchase :: transaction where
  "amex_purchase = day_purchase\<lparr>transaction_id := ''T-3'', card_type := ''amex''\<rparr>"

definition nowhere_purchase :: transaction where
  "nowhere_purchase = day_purchase\<lparr>transaction_id := ''T-4'', location := ''Nowhere''\<rparr>"

text \<open>
  The blacklist entries of one account, and the key (type, value) on which the upserts
  of \<open>initialize_blacklist\<close> and \<open>check_fraud_endpoint\<close> filter.
\<close>

definition account_entries :: "store \<Rightarrow> string \<Rightarrow> blacklist_doc list" where
  "account_entries st v =
     filter (\<lambda>d. bl_type d = ''account'' \<and> bl_value d = v) (blacklist_collection st)"

definition other_entries :: "store \<Rightarrow> string \<Rightarrow> blacklist_doc list" where
  "other_entries st v =
     filter (\<lambda>d. \<not> (bl_type d = ''account'' \<and> bl_value d = v)) (blacklist_collection st)"

definition bl_key :: "blacklist_doc \<Rightarrow> string \<times> string" where
  "bl_key d = (bl_type d, bl_value d)"

text \<open>The document that the feedback write of \<open>check_fraud_endpoint\<close> leaves for an account.\<close>

definition fraud_entry :: "string \<Rightarrow> nat \<Rightarrow> blacklist_doc" where
  "fraud_entry v now =
     \<lparr>bl_type = ''account'', bl_value = v, added_at = Some now,
      reason = Some ''Fraudulent transaction detected''\<rparr>"

text \<open>A transaction to a clean account, at night, submitted twice.\<close>

definition night_purchase :: transaction where
  "night_purchase =
     day_purchase\<lparr>transaction_id := ''T-5'', timestamp := ''2024-03-10 03:15:00''\<rparr>"

definition later_env :: env where
  "later_env = sample_env\<lparr>now_checked_at := 2000, now_added_at := 2001\<rparr>"





section \<open>The engine as a list of findings\<close>

declare decimal.simps [simp del]

lemma listed_iff:
  "listed st k v \<longleftrightarrow> (\<exists>d \<in> set (blacklist_collection st). bl_type d = k \<and> bl_value d = v)"
  by (auto simp: listed_def find_None_iff)

lemma detect_fraud_raises:
  "ip_lookup_raises e client_ip \<or> account_lookup_raises e t \<Longrightarrow>
   detect_fraud e st t client_ip = Inl StoreUnavailable"
  by (auto simp: detect_fraud_def ip_lookup_raises_def account_lookup_raises_def
        blacklist_find_one_def Let_def split: option.splits)

lemma detect_fraud_returns:
  assumes "\<not> ip_lookup_raises e client_ip" "\<not> account_lookup_raises e t"
  shows "detect_fraud e st t client_ip =
     Inr (map fst (findings e st t client_ip) \<noteq> [] \<or>
            30 \<le> sum_list (map snd (findings e st t client_ip)),
          map fst (findings e st t client_ip),
          sum_list (map snd (findings e st t client_ip)))"
  using assms
  by (auto simp: detect_fraud_def findings_def Let_def z_reason_def listed_def ip_listed_def
        ip_lookup_raises_def account_lookup_raises_def blacklist_find_one_def
      split: option.splits)

lemma detect_fraud_Inr_iff:
  "detect_fraud e st t client_ip = Inr (verdict, reasons, score) \<longleftrightarrow>
     \<not> ip_lookup_raises e client_ip \<and> \<not> account_lookup_raises e t \<and>
     reasons = map fst (findings e st t client_ip) \<and>
     score = sum_list (map snd (findings e st t client_ip)) \<and>
     verdict = (reasons \<noteq> [] \<or> 30 \<le> score)"
proof (cases "ip_lookup_raises e client_ip \<or> account_lookup_raises e t")
  case True
  then show ?thesis
    using detect_fraud_raises [OF True, of st] by auto
next
  case False
  then show ?thesis
    using detect_fraud_returns [of e client_ip t st] by auto
qed

lemma findings_weights:
  "map finding_weight (map fst (findings e st t client_ip)) = map snd (findings e st t client_ip)"
  by (simp add: findings_def finding_weight_def z_reason_def)

lemma findings_distinct: "distinct (map fst (findings e st t client_ip))"
  by (simp add: findings_def z_reason_def)

lemma findings_score_pos:
  "findings e st t client_ip = [] \<or> 15 \<le> sum_list (map snd (findings e st t client_ip))"
  by (simp add: findings_def)

lemma findings_empty_score: "findings e st t client_ip = [] \<Longrightarrow>
  sum_list (map snd (findings e st t client_ip)) = 0"
  by simp

subsection \<open>Which reasons are returned\<close>

lemma reasons_eq:
  "map fst (findings e st t client_ip) =
     (if ip_listed st client_ip then [''Blacklisted IP address''] else []) @
     (if listed st ''account'' (recipient_account_number t)
      then [''Blacklisted recipient account''] else []) @
     (if is_odd_hour e (timestamp t)
      then [''Transaction at odd hours (12 AM - 4 AM)''] else []) @
     (if float_gt (calculate_z_score e st (amount t) (card_type t)) 2
      then [z_reason (calculate_z_score e st (amount t) (card_type t))] else []) @
     (if check_geographic_drift e st (location t) (card_type t)
      then [''Geographic drift detected (>500km from last location)''] else [])"
  by (simp add: findings_def)

lemma z_reason_neq:
  "z_reason z \<noteq> ''Blacklisted IP address''"
  "z_reason z \<noteq> ''Blacklisted recipient account''"
  "z_reason z \<noteq> ''Transaction at odd hours (12 AM - 4 AM)''"
  "z_reason z \<noteq> ''Geographic drift detected (>500km from last location)''"
  "z_reason z \<noteq> spec_odd_hour_text"
  "prefix ''Abnormal transaction amount (z-score: '' (z_reason z)"
  by (simp_all add: z_reason_def spec_odd_hour_text_def)

lemma reasons_ip:
  "''Blacklisted IP address'' \<in> set (map fst (findings e st t client_ip)) \<longleftrightarrow> ip_listed st client_ip"
  unfolding reasons_eq using z_reason_neq [of "calculate_z_score e st (amount t) (card_type t)"] by (auto split: if_splits)

lemma reasons_account:
  "''Blacklisted recipient account'' \<in> set (map fst (findings e st t client_ip)) \<longleftrightarrow>
     listed st ''account'' (recipient_account_number t)"
  unfolding reasons_eq using z_reason_neq [of "calculate_z_score e st (amount t) (card_type t)"] by (auto split: if_splits)

lemma reasons_odd_hour:
  "''Transaction at odd hours (12 AM - 4 AM)'' \<in> set (map fst (findings e st t client_ip)) \<longleftrightarrow>
     is_odd_hour e (timestamp t)"
  unfolding reasons_eq using z_reason_neq [of "calculate_z_score e st (amount t) (card_type t)"] by (auto split: if_splits)

lemma reasons_drift:
  "''Geographic drift detected (>500km from last location)'' \<in> set (map fst (findings e st t client_ip)) \<longleftrightarrow>
     check_geographic_drift e st (location t) (card_type t)"
  unfolding reasons_eq using z_reason_neq [of "calculate_z_score e st (amount t) (card_type t)"] by (auto split: if_splits)

lemma reasons_abnormal:
  "prefix ''Abnormal transaction amount (z-score: '' r \<and> r \<in> set (map fst (findings e st t client_ip)) \<longleftrightarrow>
     float_gt (calculate_z_score e st (amount t) (card_type t)) 2 \<and>
     r = z_reason (calculate_z_score e st (amount t) (card_type t))"
  unfolding reasons_eq using z_reason_neq(6) by (auto split: if_splits)

lemma reasons_spec_text:
  "spec_odd_hour_text \<notin> set (map fst (findings e st t client_ip))"
  unfolding reasons_eq using z_reason_neq [of "calculate_z_score e st (amount t) (card_type t)"] by (auto simp: spec_odd_hour_text_def split: if_splits)

subsection \<open>The history queries and the distance\<close>

lemma find_by_card_type_set:
  assumes "sorts_newest_first e (filter (\<lambda>d. card_type d = ct) docs)"
  shows "set (find_by_card_type e docs ct) = {d \<in> set docs. card_type d = ct}"
  using assms by (auto simp: find_by_card_type_def sorts_newest_first_def)

lemma find_by_card_type_newest_first:
  assumes "sorts_newest_first e (filter (\<lambda>d. card_type d = ct) docs)"
    and "find_by_card_type e docs ct = d # rest"
  shows "\<forall>d' \<in> set docs. card_type d' = ct \<longrightarrow> timestamp d' \<le> timestamp d"
proof -
  let ?s = "find_by_card_type e docs ct"
  have "sorted (rev (map timestamp ?s))"
    using assms(1) by (simp add: find_by_card_type_def sorts_newest_first_def)
  then have "sorted (rev (map timestamp rest) @ [timestamp d])"
    by (simp add: assms(2))
  then have "\<forall>x \<in> set rest. timestamp x \<le> timestamp d"
    by (auto simp: sorted_append)
  moreover have "set ?s = {d' \<in> set docs. card_type d' = ct}"
    using assms(1) by (rule find_by_card_type_set)
  ultimately show ?thesis unfolding assms(2) by auto
qed

lemma find_last_None_iff:
  assumes "sorts_newest_first e (filter (\<lambda>d. card_type d = ct) (transactions_collection st))"
  shows "find_last e st ct = Inr None \<longleftrightarrow>
     \<not> history_query_fails e ct \<and> (\<forall>d \<in> set (transactions_collection st). card_type d \<noteq> ct)"
proof -
  have "find_by_card_type e (transactions_collection st) ct = [] \<longleftrightarrow>
      (\<forall>d \<in> set (transactions_collection st). card_type d \<noteq> ct)"
    using find_by_card_type_set [OF assms]
    by (metis (mono_tags, lifting) empty_Collect_eq set_empty)
  then show ?thesis
    by (auto simp: find_last_def split: list.splits)
qed

lemma find_last_newest:
  assumes "sorts_newest_first e (filter (\<lambda>d. card_type d = ct) (transactions_collection st))"
    and "find_last e st ct = Inr (Some prior)"
  shows "prior \<in> set (transactions_collection st) \<and> card_type prior = ct \<and>
         (\<forall>d \<in> set (transactions_collection st). card_type d = ct \<longrightarrow> timestamp d \<le> timestamp prior)"
proof -
  from assms(2) obtain rest where
    eq: "find_by_card_type e (transactions_collection st) ct = prior # rest"
    by (auto simp: find_last_def split: if_splits list.splits)
  then have "prior \<in> set (find_by_card_type e (transactions_collection st) ct)" by simp
  then have "prior \<in> set (transactions_collection st) \<and> card_type prior = ct"
    by (simp add: find_by_card_type_set [OF assms(1)])
  with find_by_card_type_newest_first [OF assms(1) eq] show ?thesis by blast
qed

lemma scenario_sort_sorts: "sorts_newest_first sample_env docs"
  by (simp add: sorts_newest_first_def sample_env_def scenario_sort_def rev_map)

lemma calculate_distance_unresolved:
  "get_coordinates e loc1 = None \<or> get_coordinates e loc2 = None \<Longrightarrow>
   calculate_distance e loc1 loc2 = 0"
  by (auto simp: calculate_distance_def split: option.splits)

lemma calculate_distance_resolved:
  "get_coordinates e loc1 = Some c1 \<Longrightarrow> get_coordinates e loc2 = Some c2 \<Longrightarrow>
   geodesic_km e c1 c2 = Inr km \<Longrightarrow> calculate_distance e loc1 loc2 = km"
  by (simp add: calculate_distance_def)

lemma drift_no_history:
  "find_last e st ct = Inr None \<Longrightarrow> \<not> check_geographic_drift e st loc ct"
  by (simp add: check_geographic_drift_def)

lemma drift_query_fails:
  "history_query_fails e ct \<Longrightarrow> \<not> check_geographic_drift e st loc ct"
  by (simp add: check_geographic_drift_def find_last_def)

lemma drift_with_history:
  "find_last e st ct = Inr (Some prior) \<Longrightarrow>
   check_geographic_drift e st loc ct = (500 < calculate_distance e loc (location prior))"
  by (simp add: check_geographic_drift_def)

subsection \<open>The scenario, evaluated\<close>

lemma sample_fields:
  "blacklist_lookup_fails sample_env k v = False"
  "history_query_fails sample_env ct = False"
  "sort_newest_first sample_env = scenario_sort"
  "np_mean sample_env = scenario_mean"
  "np_std sample_env = scenario_std"
  "float_sub sample_env = scenario_sub"
  "float_div sample_env = scenario_div"
  "insert_fails sample_env = False"
  "update_fails sample_env = False"
  "now_added_at sample_env = 1001"
  by (simp_all add: sample_env_def)

lemma sample_history:
  "find_by_card_type sample_env (transactions_collection sample_store) ''visa'' =
     [history_doc ''2024-03-09 10:00:00'' 3 ''Chennai'' ''visa'',
      history_doc ''2024-03-08 10:00:00'' 1 ''Chennai'' ''visa'']"
  by (simp add: find_by_card_type_def sample_fields scenario_sort_def sample_store_def
        history_doc_def)

lemma sample_history_amex:
  "find_by_card_type sample_env (transactions_collection sample_store) ''amex'' = []"
  by (simp add: find_by_card_type_def sample_fields scenario_sort_def sample_store_def
        history_doc_def)

lemma sample_window:
  "find_recent sample_env sample_store ''visa'' 5 =
     Inr [history_doc ''2024-03-09 10:00:00'' 3 ''Chennai'' ''visa'',
          history_doc ''2024-03-08 10:00:00'' 1 ''Chennai'' ''visa'']"
  by (simp add: find_recent_def sample_history sample_fields)

lemma sample_window_amounts:
  "map amount
     [history_doc ''2024-03-09 10:00:00'' 3 ''Chennai'' ''visa'',
      history_doc ''2024-03-08 10:00:00'' 1 ''Chennai'' ''visa''] = [Finite 3, Finite 1]"
  by (simp add: history_doc_def)

lemma sample_mean_std:
  "np_mean sample_env [Finite 3, Finite 1] = Finite 2"
  "np_std sample_env [Finite 3, Finite 1] = Finite 1"
  "exact_mean [3, 1] = 2"
  "population_std [3, 1] = 1"
  by (simp_all add: sample_fields scenario_mean_def scenario_std_def exact_mean_def
        population_std_def)

lemma calculate_z_score_window:
  assumes "find_recent e st ct 5 = Inr window"
  shows "calculate_z_score e st a ct =
     (if length window < 2 \<or> float_is_zero (np_std e (map amount window)) then Finite 0
      else float_abs (float_div e (float_sub e a (np_mean e (map amount window)))
                       (np_std e (map amount window))))"
  using assms by (simp add: calculate_z_score_def Let_def)

lemma sample_z_night:
  "calculate_z_score sample_env sample_store (Finite (9 / 2)) ''visa'' = Finite (5 / 2)"
  unfolding calculate_z_score_window [OF sample_window] sample_window_amounts sample_mean_std
  by (simp add: sample_fields)

lemma sample_z_day: "calculate_z_score sample_env sample_store (Finite 2) ''visa'' = Finite 0"
  unfolding calculate_z_score_window [OF sample_window] sample_window_amounts sample_mean_std
  by (simp add: sample_fields)

lemma sample_find_last_visa:
  "find_last sample_env sample_store ''visa'' =
     Inr (Some (history_doc ''2024-03-09 10:00:00'' 3 ''Chennai'' ''visa''))"
  by (simp add: find_last_def sample_history sample_fields)

lemma sample_find_last_amex: "find_last sample_env sample_store ''amex'' = Inr None"
  by (simp add: find_last_def sample_history_amex sample_fields)

lemma sample_coordinates:
  "get_coordinates sample_env ''Delhi'' = Some (28, 77)"
  "get_coordinates sample_env ''Chennai'' = Some (13, 80)"
  "get_coordinates sample_env ''Nowhere'' = None"
  by (simp_all add: get_coordinates_def sample_env_def)

lemma sample_geodesic:
  "geodesic_km sample_env (28, 77) (13, 80) = Inr (168972 / 100)"
  "geodesic_km sample_env (13, 80) (13, 80) = Inr 0"
  by (simp_all add: sample_env_def)

lemma sample_history_location:
  "location (history_doc ts a ''Chennai'' ct) = ''Chennai''"
  by (simp add: history_doc_def)

lemma sample_distance:
  "calculate_distance sample_env ''Delhi'' ''Chennai'' = 168972 / 100"
  "calculate_distance sample_env ''Chennai'' ''Chennai'' = 0"
  "calculate_distance sample_env ''Nowhere'' ''Chennai'' = 0"
    apply (rule calculate_distance_resolved [OF sample_coordinates(1) sample_coordinates(2)
        sample_geodesic(1)])
   apply (rule calculate_distance_resolved [OF sample_coordinates(2) sample_coordinates(2)
        sample_geodesic(2)])
  apply (rule calculate_distance_unresolved)
  apply (rule disjI1)
  apply (rule sample_coordinates(3))
  done

lemma sample_drift_night: "check_geographic_drift sample_env sample_store ''Delhi'' ''visa''"
  unfolding drift_with_history [OF sample_find_last_visa] sample_history_location
    sample_distance by simp

lemma sample_drift_day: "\<not> check_geographic_drift sample_env sample_store ''Chennai'' ''visa''"
  unfolding drift_with_history [OF sample_find_last_visa] sample_history_location
    sample_distance by simp

lemma sample_drift_nowhere: "\<not> check_geographic_drift sample_env sample_store ''Nowhere'' ''visa''"
  unfolding drift_with_history [OF sample_find_last_visa] sample_history_location
    sample_distance by simp

lemma sample_strptime:
  "strptime sample_env ''2024-03-10 03:15:00'' =
     Inr \<lparr>year = 2024, month = 3, day = 10, hour = 3, minute = 15, second = 0\<rparr>"
  "strptime sample_env ''2024-03-10 14:30:00'' =
     Inr \<lparr>year = 2024, month = 3, day = 10, hour = 14, minute = 30, second = 0\<rparr>"
  "strptime sample_env ''2024-03-10T03:15'' = Inl BadTimestamp"
  by (simp_all add: sample_env_def)

lemma sample_odd_night: "is_odd_hour sample_env ''2024-03-10 03:15:00''"
  by (simp add: is_odd_hour_def sample_strptime)

lemma sample_odd_day: "\<not> is_odd_hour sample_env ''2024-03-10 14:30:00''"
  by (simp add: is_odd_hour_def sample_strptime)

lemma format_2f_sample: "format_2f (5 / 2) = ''2.50''"
  by (simp add: format_2f_def round_half_even_def decimal.simps digit_char_def Let_def)

lemma sample_listed:
  "listed sample_store ''ip'' ''192.168.1.100''"
  "listed sample_store ''account'' ''ACC123456789''"
  "\<not> listed sample_store ''account'' ''ACC000000001''"
  by (simp_all add: listed_def sample_store_def)

lemma sample_findings_night:
  "findings sample_env sample_store night_transfer (Some ''192.168.1.100'') =
     [(''Blacklisted IP address'', 30), (''Blacklisted recipient account'', 40),
      (''Transaction at odd hours (12 AM - 4 AM)'', 15),
      (''Abnormal transaction amount (z-score: 2.50)'', 20),
      (''Geographic drift detected (>500km from last location)'', 25)]"
  by (simp add: findings_def night_transfer_def sample_z_night sample_drift_night
        sample_odd_night z_reason_def format_2f_sample ip_listed_def sample_listed)

lemma sample_findings_day: "findings sample_env sample_store day_purchase None = []"
  by (simp add: findings_def day_purchase_def sample_z_day sample_drift_day sample_odd_day
        ip_listed_def sample_listed)

lemma sample_no_raise:
  "\<not> ip_lookup_raises sample_env client_ip" "\<not> account_lookup_raises sample_env t"
  by (simp_all add: ip_lookup_raises_def account_lookup_raises_def sample_fields
        split: option.splits)

lemma sample_detect_night:
  "detect_fraud sample_env sample_store night_transfer (Some ''192.168.1.100'') =
     Inr (True,
          [''Blacklisted IP address'', ''Blacklisted recipient account'',
           ''Transaction at odd hours (12 AM - 4 AM)'',
           ''Abnormal transaction amount (z-score: 2.50)'',
           ''Geographic drift detected (>500km from last location)''],
          130)"
  by (simp add: detect_fraud_returns sample_no_raise sample_findings_night)

lemma sample_detect_day:
  "detect_fraud sample_env sample_store day_purchase None = Inr (False, [], 0)"
  by (simp add: detect_fraud_returns sample_no_raise sample_findings_day)

lemma sample_findings_night_no_ip:
  "findings sample_env sample_store night_transfer None =
     [(''Blacklisted recipient account'', 40),
      (''Transaction at odd hours (12 AM - 4 AM)'', 15),
      (''Abnormal transaction amount (z-score: 2.50)'', 20),
      (''Geographic drift detected (>500km from last location)'', 25)]"
  by (simp add: findings_def night_transfer_def sample_z_night sample_drift_night
        sample_odd_night z_reason_def format_2f_sample ip_listed_def sample_listed)

lemma sample_detect_night_no_ip:
  "detect_fraud sample_env sample_store night_transfer None =
     Inr (True,
          [''Blacklisted recipient account'',
           ''Transaction at odd hours (12 AM - 4 AM)'',
           ''Abnormal transaction amount (z-score: 2.50)'',
           ''Geographic drift detected (>500km from last location)''],
          100)"
  by (simp add: detect_fraud_returns sample_no_raise sample_findings_night_no_ip)

lemma sample_window_amex: "find_recent sample_env sample_store ''amex'' 5 = Inr []"
  by (simp add: find_recent_def sample_history_amex sample_fields)

lemma sample_z_amex: "calculate_z_score sample_env sample_store (Finite 2) ''amex'' = Finite 0"
  unfolding calculate_z_score_window [OF sample_window_amex] by simp

lemma sample_detect_amex:
  "detect_fraud sample_env sample_store amex_purchase None = Inr (False, [], 0)"
proof -
  have "findings sample_env sample_store amex_purchase None = []"
    by (simp add: findings_def amex_purchase_def day_purchase_def sample_z_amex
          drift_no_history [OF sample_find_last_amex] sample_odd_day ip_listed_def sample_listed)
  then show ?thesis
    by (simp add: detect_fraud_returns sample_no_raise)
qed

lemma sample_detect_nowhere:
  "detect_fraud sample_env sample_store nowhere_purchase None = Inr (False, [], 0)"
proof -
  have "findings sample_env sample_store nowhere_purchase None = []"
    by (simp add: findings_def nowhere_purchase_def day_purchase_def sample_z_day
          sample_drift_nowhere sample_odd_day ip_listed_def sample_listed)
  then show ?thesis
    by (simp add: detect_fraud_returns sample_no_raise)
qed

subsection \<open>Faults that the evaluators swallow\<close>

lemma z_score_query_fails:
  "history_query_fails e ct \<Longrightarrow> calculate_z_score e st a ct = Finite 0"
  by (simp add: calculate_z_score_def find_recent_def)

lemma odd_hour_unparsed: "strptime e ts = Inl x \<Longrightarrow> \<not> is_odd_hour e ts"
  by (simp add: is_odd_hour_def)

lemma odd_hour_parsed: "strptime e ts = Inr dt \<Longrightarrow> is_odd_hour e ts = (0 \<le> hour dt \<and> hour dt \<le> 4)"
  by (simp add: is_odd_hour_def)

lemma get_coordinates_fault: "geocode e loc = Inl x \<Longrightarrow> get_coordinates e loc = None"
  by (simp add: get_coordinates_def)

lemma drift_unresolved:
  "get_coordinates e loc = None \<Longrightarrow> \<not> check_geographic_drift e st loc ct"
  by (auto simp: check_geographic_drift_def calculate_distance_def split: sum.splits option.splits)

lemma calculate_distance_fault:
  "geodesic_km e c1 c2 = Inl x \<Longrightarrow> get_coordinates e loc1 = Some c1 \<Longrightarrow>
   get_coordinates e loc2 = Some c2 \<Longrightarrow> calculate_distance e loc1 loc2 = 0"
  by (simp add: calculate_distance_def)

lemma drift_unresolved_prior:
  "find_last e st ct = Inr (Some prior) \<Longrightarrow> get_coordinates e (location prior) = None \<Longrightarrow>
   \<not> check_geographic_drift e st loc ct"
  by (simp add: drift_with_history calculate_distance_unresolved)

lemma drift_distance_fault:
  "find_last e st ct = Inr (Some prior) \<Longrightarrow> get_coordinates e loc = Some c1 \<Longrightarrow>
   get_coordinates e (location prior) = Some c2 \<Longrightarrow> geodesic_km e c1 c2 = Inl x \<Longrightarrow>
   \<not> check_geographic_drift e st loc ct"
  by (simp add: drift_with_history calculate_distance_fault)

lemma reasons_no_abnormal:
  assumes "\<not> float_gt (calculate_z_score e st (amount t) (card_type t)) 2"
  shows "\<forall>r \<in> set (map fst (findings e st t client_ip)).
           \<not> prefix ''Abnormal transaction amount (z-score: '' r"
proof
  fix r assume r: "r \<in> set (map fst (findings e st t client_ip))"
  show "\<not> prefix ''Abnormal transaction amount (z-score: '' r"
  proof
    assume "prefix ''Abnormal transaction amount (z-score: '' r"
    then have "prefix ''Abnormal transaction amount (z-score: '' r \<and>
        r \<in> set (map fst (findings e st t client_ip))" using r by (rule conjI)
    then have "float_gt (calculate_z_score e st (amount t) (card_type t)) 2"
      by (simp only: reasons_abnormal simp_thms)
    with assms show False by (rule notE)
  qed
qed

lemma sample_degraded:
  "\<not> ip_lookup_raises degraded_env client_ip"
  "\<not> account_lookup_raises degraded_env t"
  "history_query_fails degraded_env ct"
  "geocode degraded_env loc = Inl GeocoderFailure"
  "strptime degraded_env ''2024-03-10T03:15'' = Inl BadTimestamp"
  by (simp_all add: degraded_env_def sample_env_def ip_lookup_raises_def account_lookup_raises_def
        split: option.splits)

lemma garbled_fields:
  "timestamp garbled_transfer = ''2024-03-10T03:15''"
  "card_type garbled_transfer = ''visa''"
  "location garbled_transfer = ''Delhi''"
  "recipient_account_number garbled_transfer = ''ACC123456789''"
  by (simp_all add: garbled_transfer_def night_transfer_def)

lemma sample_findings_degraded:
  "findings degraded_env sample_store garbled_transfer (Some ''192.168.1.100'') =
     [(''Blacklisted IP address'', 30), (''Blacklisted recipient account'', 40)]"
proof -
  have "\<not> is_odd_hour degraded_env (timestamp garbled_transfer)"
    unfolding garbled_fields by (rule odd_hour_unparsed) (rule sample_degraded)
  moreover have "calculate_z_score degraded_env sample_store (amount garbled_transfer)
      (card_type garbled_transfer) = Finite 0"
    by (rule z_score_query_fails) (rule sample_degraded)
  moreover have "\<not> check_geographic_drift degraded_env sample_store (location garbled_transfer)
      (card_type garbled_transfer)"
    by (rule drift_query_fails) (rule sample_degraded)
  ultimately show ?thesis
    by (simp add: findings_def ip_listed_def sample_listed garbled_fields)
qed

lemma sample_detect_degraded:
  "detect_fraud degraded_env sample_store garbled_transfer (Some ''192.168.1.100'') =
     Inr (True, [''Blacklisted IP address'', ''Blacklisted recipient account''], 70)"
  by (simp add: detect_fraud_returns sample_degraded sample_findings_degraded)

subsection \<open>Removing an account from the blacklist\<close>

lemma listed_without_account:
  "\<not> listed (without_account st v) ''account'' v"
  "listed (without_account st v) ''ip'' ip = listed st ''ip'' ip"
  by (auto simp: listed_iff without_account_def)

lemma evaluators_without_account:
  "calculate_z_score e (without_account st v) a ct = calculate_z_score e st a ct"
  "check_geographic_drift e (without_account st v) loc ct = check_geographic_drift e st loc ct"
  by (simp_all add: calculate_z_score_def check_geographic_drift_def find_recent_def find_last_def
        without_account_def)

lemma ip_listed_without_account:
  "ip_listed (without_account st v) client_ip = ip_listed st client_ip"
  by (simp add: ip_listed_def listed_without_account split: option.splits)

lemma count_list_distinct: "distinct xs \<Longrightarrow> x \<in> set xs \<Longrightarrow> count_list xs x = 1"
  by (induction xs) (auto simp: count_list_0_iff)

lemma findings_without_account:
  assumes "listed st ''account'' (recipient_account_number t)"
  shows "map fst (findings e (without_account st (recipient_account_number t)) t client_ip) =
           remove1 ''Blacklisted recipient account'' (map fst (findings e st t client_ip))"
    and "sum_list (map snd (findings e st t client_ip)) =
           40 + sum_list (map snd (findings e (without_account st (recipient_account_number t)) t client_ip))"
  using assms
  by (simp_all add: findings_def evaluators_without_account ip_listed_without_account
        listed_without_account)

lemma sample_detect_night_without_account:
  "detect_fraud sample_env (without_account sample_store ''ACC123456789'') night_transfer
     (Some ''192.168.1.100'') =
     Inr (True,
          [''Blacklisted IP address'',
           ''Transaction at odd hours (12 AM - 4 AM)'',
           ''Abnormal transaction amount (z-score: 2.50)'',
           ''Geographic drift detected (>500km from last location)''],
          90)"
proof -
  have "findings sample_env (without_account sample_store ''ACC123456789'') night_transfer
     (Some ''192.168.1.100'') =
     [(''Blacklisted IP address'', 30),
      (''Transaction at odd hours (12 AM - 4 AM)'', 15),
      (''Abnormal transaction amount (z-score: 2.50)'', 20),
      (''Geographic drift detected (>500km from last location)'', 25)]"
    by (simp add: findings_def night_transfer_def evaluators_without_account
          ip_listed_without_account listed_without_account sample_z_night sample_drift_night
          sample_odd_night z_reason_def format_2f_sample ip_listed_def sample_listed)
  then show ?thesis
    by (simp add: detect_fraud_returns sample_no_raise)
qed

subsection \<open>The endpoint\<close>

lemma check_fraud_endpoint_Inr:
  assumes "check_fraud_endpoint e st t username = (st', Inr response)"
  shows "\<exists>verdict reasons score.
           detect_fraud e st t None = Inr (verdict, reasons, score) \<and>
           resp_is_fraud response = verdict \<and> resp_fraud_reasons response = reasons \<and>
           resp_risk_score response = of_int score"
  using assms
  by (auto simp: check_fraud_endpoint_def Let_def split: sum.splits if_splits)

lemma feedback_update_const:
  "d\<lparr>bl_type := ''account'', bl_value := v, added_at := Some now,
      reason := Some ''Fraudulent transaction detected''\<rparr> = fraud_entry v now"
  by (simp add: fraud_entry_def)

lemma update_one_matching:
  assumes "\<And>d. bl_type (upd d) = k \<and> bl_value (upd d) = v"
  shows "filter (\<lambda>d. bl_type d = k \<and> bl_value d = v) (update_one k v upd ds) =
     (case filter (\<lambda>d. bl_type d = k \<and> bl_value d = v) ds of
        [] \<Rightarrow> [upd \<lparr>bl_type = k, bl_value = v, added_at = None, reason = None\<rparr>]
      | d # rest \<Rightarrow> upd d # rest)"
  using assms by (induction ds) auto

lemma update_one_others:
  assumes "\<And>d. bl_type (upd d) = k \<and> bl_value (upd d) = v"
  shows "filter (\<lambda>d. \<not> (bl_type d = k \<and> bl_value d = v)) (update_one k v upd ds) =
         filter (\<lambda>d. \<not> (bl_type d = k \<and> bl_value d = v)) ds"
  using assms by (induction ds) auto

lemma update_one_length:
  "length (update_one k v upd ds) =
     (if \<exists>d \<in> set ds. bl_type d = k \<and> bl_value d = v then length ds else Suc (length ds))"
  by (induction ds) auto

lemma update_one_keys:
  assumes "\<And>d. bl_type (upd d) = k \<and> bl_value (upd d) = v"
  shows "map bl_key (update_one k v upd ds) =
     (if (k, v) \<in> set (map bl_key ds) then map bl_key ds else map bl_key ds @ [(k, v)])"
  using assms by (induction ds) (auto simp: bl_key_def)

lemma update_one_distinct:
  assumes "\<And>d. bl_type (upd d) = k \<and> bl_value (upd d) = v"
    and "distinct (map bl_key ds)"
  shows "distinct (map bl_key (update_one k v upd ds))"
  using assms(2) unfolding update_one_keys [OF assms(1)] by auto



lemma check_fraud_endpoint_returns:
  assumes "detect_fraud e st t None = Inr (verdict, reasons, score)"
    and "\<not> insert_fails e" and "verdict \<longrightarrow> \<not> update_fails e"
  shows "check_fraud_endpoint e st t username =
     (\<lparr>transactions_collection = transactions_collection st @
             [\<lparr>transaction_id = transaction_id t, timestamp = timestamp t,
               amount = amount t, location = location t, card_type = card_type t,
               currency = currency t, recipient_account_number = recipient_account_number t,
               stored_is_fraud = verdict, stored_fraud_reasons = reasons,
               stored_risk_score = score, checked_by = username,
               checked_at = now_checked_at e\<rparr>],
           blacklist_collection =
             (if verdict
              then update_one ''account'' (recipient_account_number t)
                     (\<lambda>d. fraud_entry (recipient_account_number t) (now_added_at e))
                     (blacklist_collection st)
              else blacklist_collection st)\<rparr>,
      Inr \<lparr>transaction_id = transaction_id t, timestamp = timestamp t,
           amount = amount t, location = location t, card_type = card_type t,
           currency = currency t, recipient_account_number = recipient_account_number t,
           resp_is_fraud = verdict, resp_fraud_reasons = reasons,
           resp_risk_score = of_int score\<rparr>)"
proof (cases verdict)
  case True
  with assms show ?thesis
    by (simp add: check_fraud_endpoint_def Let_def feedback_update_const)
next
  case False
  with assms show ?thesis
    by (simp add: check_fraud_endpoint_def Let_def)
qed

lemma check_fraud_endpoint_Inr_detect:
  assumes "check_fraud_endpoint e st t username = (st', Inr response)"
  shows "\<exists>verdict reasons score.
           detect_fraud e st t None = Inr (verdict, reasons, score) \<and>
           \<not> insert_fails e \<and> (verdict \<longrightarrow> \<not> update_fails e)"
proof (cases "detect_fraud e st t None")
  case (Inl x)
  with assms show ?thesis by (simp add: check_fraud_endpoint_def)
next
  case (Inr r)
  obtain verdict reasons score where r: "r = (verdict, reasons, score)" by (cases r) auto
  have ni: "\<not> insert_fails e"
  proof
    assume "insert_fails e"
    with assms Inr r show False by (simp add: check_fraud_endpoint_def)
  qed
  have nu: "verdict \<longrightarrow> \<not> update_fails e"
  proof (intro impI notI)
    assume "verdict" "update_fails e"
    with assms Inr r ni show False by (simp add: check_fraud_endpoint_def Let_def)
  qed
  from Inr r ni nu show ?thesis by simp
qed

lemma fraud_entry_key:
  "bl_type (fraud_entry v now) = ''account'' \<and> bl_value (fraud_entry v now) = v"
  by (simp add: fraud_entry_def)

lemma account_entries_update:
  assumes "blacklist_collection st' =
      update_one ''account'' v (\<lambda>d. fraud_entry v now) (blacklist_collection st)"
    and "length (account_entries st v) \<le> 1"
  shows "account_entries st' v = [fraud_entry v now]"
    and "other_entries st' v = other_entries st v"
    and "distinct (map bl_key (blacklist_collection st)) \<Longrightarrow>
         distinct (map bl_key (blacklist_collection st'))"
    and "account_entries st v \<noteq> [] \<Longrightarrow>
         length (blacklist_collection st') = length (blacklist_collection st)"
proof -
  have k: "\<And>d. bl_type ((\<lambda>d. fraud_entry v now) d) = ''account'' \<and>
               bl_value ((\<lambda>d. fraud_entry v now) d) = v"
    by (simp add: fraud_entry_key)
  from assms(2) show "account_entries st' v = [fraud_entry v now]"
    unfolding account_entries_def assms(1) update_one_matching [OF k]
    by (auto split: list.splits)
  show "other_entries st' v = other_entries st v"
    unfolding other_entries_def assms(1) by (rule update_one_others [OF k])
  show "distinct (map bl_key (blacklist_collection st'))"
    if "distinct (map bl_key (blacklist_collection st))"
    unfolding assms(1) using k that by (rule update_one_distinct)
  show "length (blacklist_collection st') = length (blacklist_collection st)"
    if "account_entries st v \<noteq> []"
  proof -
    from that have "\<exists>d \<in> set (blacklist_collection st). bl_type d = ''account'' \<and> bl_value d = v"
      unfolding account_entries_def by (auto simp: filter_empty_conv)
    then show ?thesis unfolding assms(1) by (simp add: update_one_length)
  qed
qed

lemma listed_account_entries: "listed st ''account'' v \<longleftrightarrow> account_entries st v \<noteq> []"
  by (auto simp: listed_iff account_entries_def filter_empty_conv)

lemma check_fraud_endpoint_fraud:
  assumes "check_fraud_endpoint e st t username = (st', Inr response)" and "resp_is_fraud response"
  shows "blacklist_collection st' =
      update_one ''account'' (recipient_account_number t)
        (\<lambda>d. fraud_entry (recipient_account_number t) (now_added_at e)) (blacklist_collection st)"
proof -
  from check_fraud_endpoint_Inr_detect [OF assms(1)] obtain verdict reasons score where
    d: "detect_fraud e st t None = Inr (verdict, reasons, score)"
    and ni: "\<not> insert_fails e" and nu: "verdict \<longrightarrow> \<not> update_fails e"
    by blast
  note eq = check_fraud_endpoint_returns [OF d ni nu, of username]
  from eq assms(1) have r: "resp_is_fraud response = verdict" by auto
  with assms(2) have "verdict" by simp
  with eq assms(1) show ?thesis by auto
qed

lemma check_fraud_endpoint_listed:
  assumes "listed st ''account'' (recipient_account_number t)"
    and "\<not> account_lookup_raises e t" and "\<not> insert_fails e" and "\<not> update_fails e"
  shows "\<exists>st' response. check_fraud_endpoint e st t username = (st', Inr response) \<and>
           resp_is_fraud response"
proof -
  have nr: "\<not> ip_lookup_raises e None" by (simp add: ip_lookup_raises_def)
  have "''Blacklisted recipient account'' \<in> set (map fst (findings e st t None))"
    using assms(1) by (simp only: reasons_account)
  then have ne: "map fst (findings e st t None) \<noteq> []" by auto
  have d: "detect_fraud e st t None =
      Inr (True, map fst (findings e st t None), sum_list (map snd (findings e st t None)))"
    using detect_fraud_returns [OF nr assms(2), of st] ne by simp
  have "True \<longrightarrow> \<not> update_fails e" using assms(4) by simp
  from check_fraud_endpoint_returns [OF d assms(3) this, of username]
  show ?thesis by simp
qed

lemma sample_endpoint_env:
  "\<not> insert_fails sample_env" "\<not> update_fails sample_env"
  "\<not> insert_fails later_env" "\<not> update_fails later_env"
  "\<not> account_lookup_raises later_env t"
  "now_added_at sample_env = 1001" "now_added_at later_env = 2001"
  by (simp_all add: sample_env_def later_env_def account_lookup_raises_def)

lemma sample_detect_night_purchase:
  "detect_fraud sample_env sample_store night_purchase None =
     Inr (True, [''Transaction at odd hours (12 AM - 4 AM)''], 15)"
proof -
  have "findings sample_env sample_store night_purchase None =
      [(''Transaction at odd hours (12 AM - 4 AM)'', 15)]"
    by (simp add: findings_def night_purchase_def day_purchase_def sample_z_day sample_drift_day
          sample_odd_night ip_listed_def sample_listed)
  then show ?thesis
    by (simp add: detect_fraud_returns sample_no_raise)
qed

lemma sample_first_run:
  "check_fraud_endpoint sample_env sample_store night_purchase ''alice'' =
     (fst (check_fraud_endpoint sample_env sample_store night_purchase ''alice''),
      Inr \<lparr>transaction_id = ''T-5'', timestamp = ''2024-03-10 03:15:00'',
           amount = Finite 2,
           location = ''Chennai'', card_type = ''visa'', currency = ''USD'',
           recipient_account_number = ''ACC000000001'',
           resp_is_fraud = True,
           resp_fraud_reasons = [''Transaction at odd hours (12 AM - 4 AM)''],
           resp_risk_score = 15\<rparr>)"
proof -
  have "True \<longrightarrow> \<not> update_fails sample_env" by (simp add: sample_endpoint_env)
  from check_fraud_endpoint_returns [OF sample_detect_night_purchase sample_endpoint_env(1) this,
      of "''alice''"]
  show ?thesis by (simp add: night_purchase_def day_purchase_def)
qed

lemma sample_account_entries:
  "account_entries sample_store ''ACC000000001'' = []"
  by (simp add: account_entries_def sample_store_def)

lemma sample_endpoint_night_transfer:
  "check_fraud_endpoint sample_env sample_store night_transfer ''alice'' =
     (fst (check_fraud_endpoint sample_env sample_store night_transfer ''alice''),
      Inr \<lparr>transaction_id = ''T-1'', timestamp = ''2024-03-10 03:15:00'',
           amount = Finite (9 / 2),
           location = ''Delhi'', card_type = ''visa'', currency = ''USD'',
           recipient_account_number = ''ACC123456789'',
           resp_is_fraud = True,
           resp_fraud_reasons =
             [''Blacklisted recipient account'',
              ''Transaction at odd hours (12 AM - 4 AM)'',
              ''Abnormal transaction amount (z-score: 2.50)'',
              ''Geographic drift detected (>500km from last location)''],
           resp_risk_score = 100\<rparr>)"
proof -
  have "True \<longrightarrow> \<not> update_fails sample_env" by (simp add: sample_endpoint_env)
  from check_fraud_endpoint_returns [OF sample_detect_night_no_ip sample_endpoint_env(1) this,
      of "''alice''"]
  show ?thesis by (simp add: night_transfer_def)
qed

subsection \<open>The z-score\<close>

lemma population_std_formula:
  "population_std xs =
     sqrt (sum_list (map (\<lambda>x. (x - exact_mean xs) ^ 2) xs) / real (length xs))"
  by (simp add: population_std_def exact_mean_def [of "map _ _"])











section \<open>Score and verdict\<close>

text \<open>
  Claim C1. Whenever \<open>detect_fraud\<close> returns, the risk score is the sum of the weights of
  the reason texts in the returned list, and no reason text occurs twice; so the score is
  0 when the list is empty.
\<close>

theorem risk_score_is_sum_of_weights:
  assumes "detect_fraud e st t client_ip = Inr (verdict, reasons, score)"
  shows "score = sum_list (map finding_weight reasons) \<and> distinct reasons \<and>
         (reasons = [] \<longrightarrow> score = 0)"
proof -
  from assms have r: "reasons = map fst (findings e st t client_ip)"
    and s: "score = sum_list (map snd (findings e st t client_ip))"
    by (simp_all add: detect_fraud_Inr_iff)
  have "map finding_weight reasons = map snd (findings e st t client_ip)"
    unfolding r by (rule findings_weights)
  then have "score = sum_list (map finding_weight reasons)"
    using s by (simp only:)
  moreover have "distinct reasons"
    using r findings_distinct by simp
  ultimately show ?thesis by auto
qed

theorem risk_score_is_sum_of_weights_witness:
  "detect_fraud sample_env sample_store night_transfer (Some ''192.168.1.100'') =
     Inr (True,
          [''Blacklisted IP address'', ''Blacklisted recipient account'',
           ''Transaction at odd hours (12 AM - 4 AM)'',
           ''Abnormal transaction amount (z-score: 2.50)'',
           ''Geographic drift detected (>500km from last location)''],
          130) \<and>
   (130 :: int) = 30 + 40 + 15 + 20 + 25 \<and>
   130 = sum_list (map finding_weight
          [''Blacklisted IP address'', ''Blacklisted recipient account'',
           ''Transaction at odd hours (12 AM - 4 AM)'',
           ''Abnormal transaction amount (z-score: 2.50)'',
           ''Geographic drift detected (>500km from last location)'']) \<and>
   detect_fraud sample_env sample_store day_purchase None = Inr (False, [], 0) \<and>
   (0 :: int) = sum_list (map finding_weight [])"
  using risk_score_is_sum_of_weights [OF sample_detect_night]
    risk_score_is_sum_of_weights [OF sample_detect_day]
    sample_detect_night sample_detect_day
  by simp

text \<open>
  Claim C2. The verdict returned is true exactly when the list of reasons is not empty or
  the score is at least 30; and when the blacklist lookups answer and no check triggers,
  the result is: no fraud, no reason, score 0.
\<close>

theorem verdict_rule:
  "(detect_fraud e st t client_ip = Inr (verdict, reasons, score) \<longrightarrow>
      verdict = (0 < length reasons \<or> 30 \<le> score)) \<and>
   (\<not> ip_lookup_raises e client_ip \<and> \<not> account_lookup_raises e t \<and>
    \<not> ip_listed st client_ip \<and> \<not> listed st ''account'' (recipient_account_number t) \<and>
    \<not> is_odd_hour e (timestamp t) \<and>
    \<not> float_gt (calculate_z_score e st (amount t) (card_type t)) 2 \<and>
    \<not> check_geographic_drift e st (location t) (card_type t) \<longrightarrow>
      detect_fraud e st t client_ip = Inr (False, [], 0))"
proof (intro conjI impI)
  assume "detect_fraud e st t client_ip = Inr (verdict, reasons, score)"
  then show "verdict = (0 < length reasons \<or> 30 \<le> score)"
    by (simp add: detect_fraud_Inr_iff)
next
  assume a: "\<not> ip_lookup_raises e client_ip \<and> \<not> account_lookup_raises e t \<and>
    \<not> ip_listed st client_ip \<and> \<not> listed st ''account'' (recipient_account_number t) \<and>
    \<not> is_odd_hour e (timestamp t) \<and>
    \<not> float_gt (calculate_z_score e st (amount t) (card_type t)) 2 \<and>
    \<not> check_geographic_drift e st (location t) (card_type t)"
  then have "findings e st t client_ip = []"
    by (simp add: findings_def)
  with a show "detect_fraud e st t client_ip = Inr (False, [], 0)"
    by (simp add: detect_fraud_returns)
qed

theorem verdict_rule_witness:
  "detect_fraud sample_env sample_store night_transfer (Some ''192.168.1.100'') =
     Inr (True,
          [''Blacklisted IP address'', ''Blacklisted recipient account'',
           ''Transaction at odd hours (12 AM - 4 AM)'',
           ''Abnormal transaction amount (z-score: 2.50)'',
           ''Geographic drift detected (>500km from last location)''],
          130) \<and>
   \<not> ip_listed sample_store None \<and>
   \<not> listed sample_store ''account'' (recipient_account_number day_purchase) \<and>
   \<not> is_odd_hour sample_env (timestamp day_purchase) \<and>
   \<not> float_gt (calculate_z_score sample_env sample_store (amount day_purchase)
         (card_type day_purchase)) 2 \<and>
   \<not> check_geographic_drift sample_env sample_store (location day_purchase)
       (card_type day_purchase) \<and>
   detect_fraud sample_env sample_store day_purchase None = Inr (False, [], 0)"
  using verdict_rule [of sample_env sample_store night_transfer "Some ''192.168.1.100''" True
      "[''Blacklisted IP address'', ''Blacklisted recipient account'',
        ''Transaction at odd hours (12 AM - 4 AM)'',
        ''Abnormal transaction amount (z-score: 2.50)'',
        ''Geographic drift detected (>500km from last location)'']" 130]
    verdict_rule [of sample_env sample_store day_purchase None]
    sample_detect_night sample_no_raise sample_listed sample_odd_day sample_z_day sample_drift_day
  by (simp add: day_purchase_def ip_listed_def)

text \<open>
  Claim C8. Replacing the verdict by "the list of reasons is not empty" changes no result
  of the engine: a score of 30 or more with an empty list of reasons never occurs.
\<close>

theorem threshold_clause_is_dead:
  "detect_fraud_any_finding e st t client_ip = detect_fraud e st t client_ip \<and>
   (\<forall>verdict reasons score.
      detect_fraud e st t client_ip = Inr (verdict, reasons, score) \<longrightarrow>
        (0 < length reasons \<or> 30 \<le> score) = (0 < length reasons) \<and>
        \<not> (reasons = [] \<and> 30 \<le> score))"
proof -
  have dead: "\<not> (reasons = [] \<and> 30 \<le> score)"
    if "detect_fraud e st t client_ip = Inr (verdict, reasons, score)"
    for verdict reasons score
    using that findings_score_pos [of e st t client_ip]
    by (auto simp: detect_fraud_Inr_iff)
  have "detect_fraud_any_finding e st t client_ip = detect_fraud e st t client_ip"
  proof (cases "detect_fraud e st t client_ip")
    case (Inl x)
    then show ?thesis by (simp add: detect_fraud_any_finding_def)
  next
    case (Inr r)
    obtain verdict reasons score where r: "r = (verdict, reasons, score)"
      by (cases r) auto
    with Inr dead [of verdict reasons score] have "verdict = (reasons \<noteq> [])"
      by (auto simp: detect_fraud_Inr_iff)
    with Inr r show ?thesis by (simp add: detect_fraud_any_finding_def)
  qed
  with dead show ?thesis by auto
qed

theorem threshold_clause_is_dead_witness:
  "detect_fraud_any_finding sample_env sample_store day_purchase None = Inr (False, [], 0) \<and>
   detect_fraud sample_env sample_store day_purchase None = Inr (False, [], 0) \<and>
   detect_fraud_any_finding sample_env sample_store night_transfer (Some ''192.168.1.100'') =
     detect_fraud sample_env sample_store night_transfer (Some ''192.168.1.100'') \<and>
   ((0 :: nat) < length [''Blacklisted IP address'', ''Blacklisted recipient account'',
           ''Transaction at odd hours (12 AM - 4 AM)'',
           ''Abnormal transaction amount (z-score: 2.50)'',
           ''Geographic drift detected (>500km from last location)''] \<or> (30 :: int) \<le> 130)"
  using threshold_clause_is_dead [of sample_env sample_store day_purchase None]
    threshold_clause_is_dead [of sample_env sample_store night_transfer "Some ''192.168.1.100''"]
    sample_detect_day
  by simp

section \<open>Which faults reach the caller\<close>

text \<open>
  \<open>detect_fraud\<close> raises exactly when a blacklist lookup it performs fails; the endpoint
  then answers with the HTTP error 500 and writes nothing. Every other fault is caught
  where it occurs: when the blacklist lookups answer, \<open>detect_fraud\<close> returns an
  assessment, in which a failing history query leaves no amount and no drift reason, an
  unparseable timestamp no odd-hour reason, and a geocoder fault on either place or a
  fault of the distance computation no drift reason.
\<close>

lemma only_blacklist_faults_reach_caller:
  "(detect_fraud e st t client_ip = Inl StoreUnavailable \<longleftrightarrow>
      ip_lookup_raises e client_ip \<or> account_lookup_raises e t) \<and>
   ((\<exists>x. detect_fraud e st t client_ip = Inl x) \<longleftrightarrow>
      ip_lookup_raises e client_ip \<or> account_lookup_raises e t) \<and>
   (account_lookup_raises e t \<longrightarrow>
      check_fraud_endpoint e st t username = (st, Inl HTTP500)) \<and>
   (\<not> ip_lookup_raises e client_ip \<and> \<not> account_lookup_raises e t \<longrightarrow>
      (\<exists>verdict reasons score.
          detect_fraud e st t client_ip = Inr (verdict, reasons, score) \<and>
          (history_query_fails e (card_type t) \<longrightarrow>
             (\<forall>r \<in> set reasons. \<not> prefix ''Abnormal transaction amount (z-score: '' r) \<and>
             ''Geographic drift detected (>500km from last location)'' \<notin> set reasons) \<and>
          ((\<exists>x. strptime e (timestamp t) = Inl x) \<longrightarrow>
             ''Transaction at odd hours (12 AM - 4 AM)'' \<notin> set reasons) \<and>
          ((\<exists>x. geocode e (location t) = Inl x) \<longrightarrow>
             ''Geographic drift detected (>500km from last location)'' \<notin> set reasons) \<and>
          (\<forall>prior. find_last e st (card_type t) = Inr (Some prior) \<longrightarrow>
             ((\<exists>x. geocode e (location prior) = Inl x) \<longrightarrow>
                ''Geographic drift detected (>500km from last location)'' \<notin> set reasons) \<and>
             (\<forall>c1 c2 x. get_coordinates e (location t) = Some c1 \<and>
                 get_coordinates e (location prior) = Some c2 \<and>
                 geodesic_km e c1 c2 = Inl x \<longrightarrow>
                ''Geographic drift detected (>500km from last location)'' \<notin> set reasons))))"
proof -
  let ?raises = "ip_lookup_raises e client_ip \<or> account_lookup_raises e t"
  let ?rs = "map fst (findings e st t client_ip)"
  let ?drift = "''Geographic drift detected (>500km from last location)''"
  have 12: "(detect_fraud e st t client_ip = Inl StoreUnavailable \<longleftrightarrow> ?raises) \<and>
      ((\<exists>x. detect_fraud e st t client_ip = Inl x) \<longleftrightarrow> ?raises)"
  proof (cases ?raises)
    case True
    from detect_fraud_raises [OF True, of st] True show ?thesis by simp
  next
    case False
    then have "\<not> ip_lookup_raises e client_ip" "\<not> account_lookup_raises e t" by simp_all
    from detect_fraud_returns [OF this, of st] False show ?thesis by simp
  qed
  have ep: "account_lookup_raises e t \<longrightarrow>
      check_fraud_endpoint e st t username = (st, Inl HTTP500)"
  proof
    assume "account_lookup_raises e t"
    then have "ip_lookup_raises e None \<or> account_lookup_raises e t" by (rule disjI2)
    then have "detect_fraud e st t None = Inl StoreUnavailable" by (rule detect_fraud_raises)
    then show "check_fraud_endpoint e st t username = (st, Inl HTTP500)"
      by (simp add: check_fraud_endpoint_def)
  qed
  have nd: "\<not> check_geographic_drift e st (location t) (card_type t) \<Longrightarrow> ?drift \<notin> set ?rs"
    by (simp only: reasons_drift simp_thms)
  have a: "history_query_fails e (card_type t) \<longrightarrow>
             (\<forall>r \<in> set ?rs. \<not> prefix ''Abnormal transaction amount (z-score: '' r) \<and>
             ?drift \<notin> set ?rs"
  proof
    assume h: "history_query_fails e (card_type t)"
    have "\<not> float_gt (calculate_z_score e st (amount t) (card_type t)) 2"
      by (simp add: z_score_query_fails [OF h])
    then have "\<forall>r \<in> set ?rs. \<not> prefix ''Abnormal transaction amount (z-score: '' r"
      by (rule reasons_no_abnormal)
    moreover have "?drift \<notin> set ?rs"
      by (rule nd) (rule drift_query_fails [OF h])
    ultimately show "(\<forall>r \<in> set ?rs. \<not> prefix ''Abnormal transaction amount (z-score: '' r) \<and>
             ?drift \<notin> set ?rs"
      by (rule conjI)
  qed
  have b: "(\<exists>x. strptime e (timestamp t) = Inl x) \<longrightarrow>
             ''Transaction at odd hours (12 AM - 4 AM)'' \<notin> set ?rs"
  proof
    assume "\<exists>x. strptime e (timestamp t) = Inl x"
    then obtain x where "strptime e (timestamp t) = Inl x" ..
    then have "\<not> is_odd_hour e (timestamp t)" by (rule odd_hour_unparsed)
    then show "''Transaction at odd hours (12 AM - 4 AM)'' \<notin> set ?rs"
      by (simp only: reasons_odd_hour simp_thms)
  qed
  have c: "(\<exists>x. geocode e (location t) = Inl x) \<longrightarrow> ?drift \<notin> set ?rs"
  proof
    assume "\<exists>x. geocode e (location t) = Inl x"
    then obtain x where "geocode e (location t) = Inl x" ..
    then have "get_coordinates e (location t) = None" by (rule get_coordinates_fault)
    then have "\<not> check_geographic_drift e st (location t) (card_type t)"
      by (rule drift_unresolved)
    then show "?drift \<notin> set ?rs" by (rule nd)
  qed
  have d: "\<forall>prior. find_last e st (card_type t) = Inr (Some prior) \<longrightarrow>
             ((\<exists>x. geocode e (location prior) = Inl x) \<longrightarrow> ?drift \<notin> set ?rs) \<and>
             (\<forall>c1 c2 x. get_coordinates e (location t) = Some c1 \<and>
                 get_coordinates e (location prior) = Some c2 \<and>
                 geodesic_km e c1 c2 = Inl x \<longrightarrow> ?drift \<notin> set ?rs)"
  proof (intro allI impI conjI)
    fix prior
    assume h: "find_last e st (card_type t) = Inr (Some prior)"
      and "\<exists>x. geocode e (location prior) = Inl x"
    then obtain x where "geocode e (location prior) = Inl x" by blast
    then have "get_coordinates e (location prior) = None" by (rule get_coordinates_fault)
    with h have "\<not> check_geographic_drift e st (location t) (card_type t)"
      by (rule drift_unresolved_prior)
    then show "?drift \<notin> set ?rs" by (rule nd)
  next
    fix prior c1 c2 x
    assume h: "find_last e st (card_type t) = Inr (Some prior)"
      and g: "get_coordinates e (location t) = Some c1 \<and>
                 get_coordinates e (location prior) = Some c2 \<and>
                 geodesic_km e c1 c2 = Inl x"
    from g have g1: "get_coordinates e (location t) = Some c1"
      and g2: "get_coordinates e (location prior) = Some c2"
      and g3: "geodesic_km e c1 c2 = Inl x" by simp_all
    from h g1 g2 g3 have "\<not> check_geographic_drift e st (location t) (card_type t)"
      by (rule drift_distance_fault)
    then show "?drift \<notin> set ?rs" by (rule nd)
  qed
  have 3: "\<not> ip_lookup_raises e client_ip \<and> \<not> account_lookup_raises e t \<longrightarrow>
      (\<exists>verdict reasons score.
          detect_fraud e st t client_ip = Inr (verdict, reasons, score) \<and>
          (history_query_fails e (card_type t) \<longrightarrow>
             (\<forall>r \<in> set reasons. \<not> prefix ''Abnormal transaction amount (z-score: '' r) \<and>
             ?drift \<notin> set reasons) \<and>
          ((\<exists>x. strptime e (timestamp t) = Inl x) \<longrightarrow>
             ''Transaction at odd hours (12 AM - 4 AM)'' \<notin> set reasons) \<and>
          ((\<exists>x. geocode e (location t) = Inl x) \<longrightarrow> ?drift \<notin> set reasons) \<and>
          (\<forall>prior. find_last e st (card_type t) = Inr (Some prior) \<longrightarrow>
             ((\<exists>x. geocode e (location prior) = Inl x) \<longrightarrow> ?drift \<notin> set reasons) \<and>
             (\<forall>c1 c2 x. get_coordinates e (location t) = Some c1 \<and>
                 get_coordinates e (location prior) = Some c2 \<and>
                 geodesic_km e c1 c2 = Inl x \<longrightarrow> ?drift \<notin> set reasons)))"
  proof
    assume h: "\<not> ip_lookup_raises e client_ip \<and> \<not> account_lookup_raises e t"
    then have eq: "detect_fraud e st t client_ip =
       Inr (?rs \<noteq> [] \<or> 30 \<le> sum_list (map snd (findings e st t client_ip)), ?rs,
            sum_list (map snd (findings e st t client_ip)))"
      using detect_fraud_returns [of e client_ip t st] by simp
    show "\<exists>verdict reasons score.
          detect_fraud e st t client_ip = Inr (verdict, reasons, score) \<and>
          (history_query_fails e (card_type t) \<longrightarrow>
             (\<forall>r \<in> set reasons. \<not> prefix ''Abnormal transaction amount (z-score: '' r) \<and>
             ?drift \<notin> set reasons) \<and>
          ((\<exists>x. strptime e (timestamp t) = Inl x) \<longrightarrow>
             ''Transaction at odd hours (12 AM - 4 AM)'' \<notin> set reasons) \<and>
          ((\<exists>x. geocode e (location t) = Inl x) \<longrightarrow> ?drift \<notin> set reasons) \<and>
          (\<forall>prior. find_last e st (card_type t) = Inr (Some prior) \<longrightarrow>
             ((\<exists>x. geocode e (location prior) = Inl x) \<longrightarrow> ?drift \<notin> set reasons) \<and>
             (\<forall>c1 c2 x. get_coordinates e (location t) = Some c1 \<and>
                 get_coordinates e (location prior) = Some c2 \<and>
                 geodesic_km e c1 c2 = Inl x \<longrightarrow> ?drift \<notin> set reasons))"
      apply (rule exI [of _ "?rs \<noteq> [] \<or> 30 \<le> sum_list (map snd (findings e st t client_ip))"])
      apply (rule exI [of _ ?rs])
      apply (rule exI [of _ "sum_list (map snd (findings e st t client_ip))"])
      apply (intro conjI)
          apply (rule eq)
         apply (rule a)
        apply (rule b)
       apply (rule c)
      apply (rule d)
      done
  qed
  show ?thesis
    apply (intro conjI)
       apply (rule 12 [THEN conjunct1])
      apply (rule 12 [THEN conjunct2])
     apply (rule ep)
    apply (rule 3)
    done
qed

text \<open>
  Claim C3. The claim does not hold of the code. With MongoDB unreachable, the lookup of
  the recipient account raises; \<open>detect_fraud\<close> does not take the account for not
  blacklisted but lets the exception out, and the endpoint answers with the HTTP error
  500, the store unchanged. On the same input the history queries of the same store fail
  too, and \<open>calculate_z_score\<close> and \<open>check_geographic_drift\<close> catch that: they answer 0
  and no drift, as the claim says every evaluator does.
\<close>

theorem blacklist_fault_reaches_caller:
  "blacklist_lookup_fails outage_env ''account'' (recipient_account_number day_purchase) \<and>
   history_query_fails outage_env (card_type day_purchase) \<and>
   calculate_z_score outage_env sample_store (amount day_purchase) (card_type day_purchase) =
     Finite 0 \<and>
   \<not> check_geographic_drift outage_env sample_store (location day_purchase)
       (card_type day_purchase) \<and>
   detect_fraud outage_env sample_store day_purchase None = Inl StoreUnavailable \<and>
   check_fraud_endpoint outage_env sample_store day_purchase ''alice'' =
     (sample_store, Inl HTTP500)"
proof -
  have 1: "blacklist_lookup_fails outage_env ''account'' (recipient_account_number day_purchase)"
    by (simp add: outage_env_def)
  have 2: "history_query_fails outage_env (card_type day_purchase)"
    by (simp add: outage_env_def)
  have 3: "calculate_z_score outage_env sample_store (amount day_purchase)
      (card_type day_purchase) = Finite 0"
    using 2 by (rule z_score_query_fails)
  have 4: "\<not> check_geographic_drift outage_env sample_store (location day_purchase)
       (card_type day_purchase)"
    using 2 by (rule drift_query_fails)
  have "ip_lookup_raises outage_env None \<or> account_lookup_raises outage_env day_purchase"
    using 1 by (simp add: account_lookup_raises_def)
  then have 5: "detect_fraud outage_env sample_store day_purchase None = Inl StoreUnavailable"
    by (rule detect_fraud_raises)
  then have 6: "check_fraud_endpoint outage_env sample_store day_purchase ''alice'' =
     (sample_store, Inl HTTP500)"
    by (simp add: check_fraud_endpoint_def)
  show ?thesis
    apply (intro conjI)
         apply (rule 1)
        apply (rule 2)
       apply (rule 3)
      apply (rule 4)
     apply (rule 5)
    apply (rule 6)
    done
qed

section \<open>A blacklisted recipient account\<close>

text \<open>
  Claim C4. When the recipient account has an entry of type "account" in the blacklist
  and the blacklist lookups of the call answer, \<open>detect_fraud\<close> returns a positive
  verdict whose reasons contain "Blacklisted recipient account" exactly once, and the
  score is 40 more than the weights of the other reasons: it is 40 more than the score of
  the same call on the store without the entries of that account, which returns the same
  reasons minus this one.
\<close>

theorem blacklisted_account_flagged:
  assumes "\<exists>d \<in> set (blacklist_collection st).
             bl_type d = ''account'' \<and> bl_value d = recipient_account_number t"
    and "\<not> account_lookup_raises e t" and "\<not> ip_lookup_raises e client_ip"
  shows "\<exists>reasons score.
           detect_fraud e st t client_ip = Inr (True, reasons, score) \<and>
           ''Blacklisted recipient account'' \<in> set reasons \<and>
           count_list reasons ''Blacklisted recipient account'' = 1 \<and>
           score = 40 + sum_list (map finding_weight
                      (remove1 ''Blacklisted recipient account'' reasons)) \<and>
           (\<exists>verdict'.
              detect_fraud e (without_account st (recipient_account_number t)) t client_ip =
                Inr (verdict', remove1 ''Blacklisted recipient account'' reasons, score - 40))"
proof -
  let ?st' = "without_account st (recipient_account_number t)"
  let ?fs = "findings e st t client_ip"
  let ?fs' = "findings e ?st' t client_ip"
  let ?acc = "''Blacklisted recipient account''"
  from assms(1) have l: "listed st ''account'' (recipient_account_number t)"
    by (simp only: listed_iff)
  have mem: "?acc \<in> set (map fst ?fs)"
    using l by (simp only: reasons_account)
  then have ne: "map fst ?fs \<noteq> []" by auto
  have eq: "detect_fraud e st t client_ip = Inr (True, map fst ?fs, sum_list (map snd ?fs))"
    using detect_fraud_returns [OF assms(3) assms(2), of st] ne by simp
  have eq': "detect_fraud e ?st' t client_ip =
      Inr (map fst ?fs' \<noteq> [] \<or> 30 \<le> sum_list (map snd ?fs'), map fst ?fs', sum_list (map snd ?fs'))"
    by (rule detect_fraud_returns [OF assms(3) assms(2)])
  have cnt: "count_list (map fst ?fs) ?acc = 1"
    using findings_distinct [of e st t client_ip] mem by (rule count_list_distinct)
  have r': "map fst ?fs' = remove1 ?acc (map fst ?fs)"
    by (rule findings_without_account(1) [OF l])
  have s': "sum_list (map snd ?fs) = 40 + sum_list (map snd ?fs')"
    by (rule findings_without_account(2) [OF l])
  have w: "map finding_weight (map fst ?fs') = map snd ?fs'"
    by (rule findings_weights)
  have sc: "sum_list (map snd ?fs) = 40 + sum_list (map finding_weight (remove1 ?acc (map fst ?fs)))"
    using s' w r' by (simp only:)
  have e2: "detect_fraud e ?st' t client_ip =
      Inr (map fst ?fs' \<noteq> [] \<or> 30 \<le> sum_list (map snd ?fs'), remove1 ?acc (map fst ?fs),
           sum_list (map snd ?fs) - 40)"
    using eq' r' s' by simp
  show ?thesis
    apply (rule exI [of _ "map fst ?fs"])
    apply (rule exI [of _ "sum_list (map snd ?fs)"])
    apply (intro conjI)
        apply (rule eq)
       apply (rule mem)
      apply (rule cnt)
     apply (rule sc)
    apply (rule exI)
    apply (rule e2)
    done
qed

theorem blacklisted_account_flagged_witness:
  "(\<exists>d \<in> set (blacklist_collection sample_store).
      bl_type d = ''account'' \<and> bl_value d = recipient_account_number night_transfer) \<and>
   \<not> account_lookup_raises sample_env night_transfer \<and>
   \<not> ip_lookup_raises sample_env (Some ''192.168.1.100'') \<and>
   detect_fraud sample_env sample_store night_transfer (Some ''192.168.1.100'') =
     Inr (True,
          [''Blacklisted IP address'', ''Blacklisted recipient account'',
           ''Transaction at odd hours (12 AM - 4 AM)'',
           ''Abnormal transaction amount (z-score: 2.50)'',
           ''Geographic drift detected (>500km from last location)''],
          130) \<and>
   (130 :: int) = 40 + sum_list (map finding_weight
          [''Blacklisted IP address'',
           ''Transaction at odd hours (12 AM - 4 AM)'',
           ''Abnormal transaction amount (z-score: 2.50)'',
           ''Geographic drift detected (>500km from last location)'']) \<and>
   detect_fraud sample_env (without_account sample_store (recipient_account_number night_transfer))
     night_transfer (Some ''192.168.1.100'') =
     Inr (True,
          [''Blacklisted IP address'',
           ''Transaction at odd hours (12 AM - 4 AM)'',
           ''Abnormal transaction amount (z-score: 2.50)'',
           ''Geographic drift detected (>500km from last location)''],
          90)"
proof -
  have rc: "recipient_account_number night_transfer = ''ACC123456789''"
    by (simp add: night_transfer_def)
  have h1: "\<exists>d \<in> set (blacklist_collection sample_store).
      bl_type d = ''account'' \<and> bl_value d = recipient_account_number night_transfer"
    using sample_listed(2) by (simp only: listed_iff rc)
  note h2 = sample_no_raise(2) [of night_transfer]
  note h3 = sample_no_raise(1) [of "Some ''192.168.1.100''"]
  from blacklisted_account_flagged [OF h1 h2 h3]
  obtain reasons score where
    a: "detect_fraud sample_env sample_store night_transfer (Some ''192.168.1.100'') =
          Inr (True, reasons, score)"
    and b: "score = 40 + sum_list (map finding_weight
                      (remove1 ''Blacklisted recipient account'' reasons))"
    by blast
  from a have rs: "reasons = [''Blacklisted IP address'', ''Blacklisted recipient account'',
           ''Transaction at odd hours (12 AM - 4 AM)'',
           ''Abnormal transaction amount (z-score: 2.50)'',
           ''Geographic drift detected (>500km from last location)'']" and sc: "score = 130"
    by (simp_all add: sample_detect_night)
  from b have "(130 :: int) = 40 + sum_list (map finding_weight
          [''Blacklisted IP address'',
           ''Transaction at odd hours (12 AM - 4 AM)'',
           ''Abnormal transaction amount (z-score: 2.50)'',
           ''Geographic drift detected (>500km from last location)''])"
    unfolding rs sc by simp
  with h1 h2 h3 show ?thesis
    using sample_detect_night sample_detect_night_without_account
    by (simp only: rc simp_thms)
qed


section \<open>Amount anomaly\<close>




section \<open>Odd hours\<close>

text \<open>
  Claim C6, as amended. For a timestamp that parses, a returned assessment contains the
  reason "Transaction at odd hours (12 AM - 4 AM)", written with a hyphen, exactly when
  the hour is in [0, 4]; for an hour in [5, 23] it is absent. When present it occurs once,
  the verdict is positive and it adds 15 to the weights of the other reasons.
\<close>

theorem odd_hour_finding_iff:
  assumes "strptime e (timestamp t) = Inr dt"
    and "detect_fraud e st t client_ip = Inr (verdict, reasons, score)"
  shows "(''Transaction at odd hours (12 AM - 4 AM)'' \<in> set reasons \<longleftrightarrow> hour dt \<in> {0..4}) \<and>
         (hour dt \<in> {5..23} \<longrightarrow> ''Transaction at odd hours (12 AM - 4 AM)'' \<notin> set reasons) \<and>
         (hour dt \<in> {0..4} \<longrightarrow>
            verdict \<and> count_list reasons ''Transaction at odd hours (12 AM - 4 AM)'' = 1 \<and>
            score = 15 + sum_list (map finding_weight
                      (remove1 ''Transaction at odd hours (12 AM - 4 AM)'' reasons))) \<and>
         finding_weight ''Transaction at odd hours (12 AM - 4 AM)'' = 15"
proof -
  let ?odd = "''Transaction at odd hours (12 AM - 4 AM)''"
  from assms(2) have r: "reasons = map fst (findings e st t client_ip)"
    and s: "score = sum_list (map snd (findings e st t client_ip))"
    and v: "verdict = (reasons \<noteq> [] \<or> 30 \<le> score)"
    by (simp_all add: detect_fraud_Inr_iff)
  have w: "finding_weight ?odd = 15" by (simp add: finding_weight_def)
  have "?odd \<in> set reasons \<longleftrightarrow> is_odd_hour e (timestamp t)"
    unfolding r by (rule reasons_odd_hour)
  then have m: "?odd \<in> set reasons \<longleftrightarrow> hour dt \<in> {0..4}"
    by (simp add: odd_hour_parsed [OF assms(1)])
  have d: "distinct reasons" unfolding r by (rule findings_distinct)
  have "map finding_weight reasons = map snd (findings e st t client_ip)"
    unfolding r by (rule findings_weights)
  then have sw: "score = sum_list (map finding_weight reasons)"
    using s by (simp only:)
  have p: "verdict \<and> count_list reasons ?odd = 1 \<and>
        score = 15 + sum_list (map finding_weight (remove1 ?odd reasons))"
    if "hour dt \<in> {0..4}"
  proof -
    from that m have mem: "?odd \<in> set reasons" by simp
    then have "reasons \<noteq> []" by auto
    with v have "verdict" by simp
    moreover have "count_list reasons ?odd = 1" using d mem by (rule count_list_distinct)
    moreover have "score = 15 + sum_list (map finding_weight (remove1 ?odd reasons))"
      using sum_list_map_remove1 [OF mem, of finding_weight] sw w by simp
    ultimately show ?thesis by (intro conjI)
  qed
  have n: "hour dt \<in> {5..23} \<longrightarrow> ?odd \<notin> set reasons"
    using m by auto
  have p': "hour dt \<in> {0..4} \<longrightarrow>
        verdict \<and> count_list reasons ?odd = 1 \<and>
        score = 15 + sum_list (map finding_weight (remove1 ?odd reasons))"
    by (rule impI) (rule p)
  show ?thesis
    apply (intro conjI)
       apply (rule m)
      apply (rule n)
     apply (rule p')
    apply (rule w)
    done
qed

theorem odd_hour_finding_iff_witness:
  "strptime sample_env (timestamp night_transfer) =
     Inr \<lparr>year = 2024, month = 3, day = 10, hour = 3, minute = 15, second = 0\<rparr> \<and>
   detect_fraud sample_env sample_store night_transfer None =
     Inr (True,
          [''Blacklisted recipient account'',
           ''Transaction at odd hours (12 AM - 4 AM)'',
           ''Abnormal transaction amount (z-score: 2.50)'',
           ''Geographic drift detected (>500km from last location)''],
          100) \<and>
   (3 :: nat) \<in> {0..4} \<and>
   ''Transaction at odd hours (12 AM - 4 AM)'' \<in>
     set [''Blacklisted recipient account'',
           ''Transaction at odd hours (12 AM - 4 AM)'',
           ''Abnormal transaction amount (z-score: 2.50)'',
           ''Geographic drift detected (>500km from last location)''] \<and>
   (100 :: int) = 15 + sum_list (map finding_weight
       (remove1 ''Transaction at odd hours (12 AM - 4 AM)''
          [''Blacklisted recipient account'',
           ''Transaction at odd hours (12 AM - 4 AM)'',
           ''Abnormal transaction amount (z-score: 2.50)'',
           ''Geographic drift detected (>500km from last location)''])) \<and>
   strptime sample_env (timestamp day_purchase) =
     Inr \<lparr>year = 2024, month = 3, day = 10, hour = 14, minute = 30, second = 0\<rparr> \<and>
   detect_fraud sample_env sample_store day_purchase None = Inr (False, [], 0) \<and>
   (14 :: nat) \<in> {5..23} \<and>
   ''Transaction at odd hours (12 AM - 4 AM)'' \<notin> set []"
proof -
  have p1: "strptime sample_env (timestamp night_transfer) =
     Inr \<lparr>year = 2024, month = 3, day = 10, hour = 3, minute = 15, second = 0\<rparr>"
    using sample_strptime(1) by (simp add: night_transfer_def)
  have p2: "strptime sample_env (timestamp day_purchase) =
     Inr \<lparr>year = 2024, month = 3, day = 10, hour = 14, minute = 30, second = 0\<rparr>"
    using sample_strptime(2) by (simp add: day_purchase_def)
  note a = odd_hour_finding_iff [OF p1 sample_detect_night_no_ip]
  note b = odd_hour_finding_iff [OF p2 sample_detect_day]
  have h3: "(3 :: nat) \<in> {0..4}" and h14: "(14 :: nat) \<in> {5..23}" by simp_all
  have a1: "''Transaction at odd hours (12 AM - 4 AM)'' \<in>
     set [''Blacklisted recipient account'',
           ''Transaction at odd hours (12 AM - 4 AM)'',
           ''Abnormal transaction amount (z-score: 2.50)'',
           ''Geographic drift detected (>500km from last location)'']"
    using a [THEN conjunct1] h3 by simp
  have a2: "(100 :: int) = 15 + sum_list (map finding_weight
       (remove1 ''Transaction at odd hours (12 AM - 4 AM)''
          [''Blacklisted recipient account'',
           ''Transaction at odd hours (12 AM - 4 AM)'',
           ''Abnormal transaction amount (z-score: 2.50)'',
           ''Geographic drift detected (>500km from last location)'']))"
    using a [THEN conjunct2, THEN conjunct2, THEN conjunct1] h3 by simp
  have b1: "''Transaction at odd hours (12 AM - 4 AM)'' \<notin> set []"
    using b [THEN conjunct2, THEN conjunct1] h14 by simp
  show ?thesis
    apply (intro conjI)
            apply (rule p1)
           apply (rule sample_detect_night_no_ip)
          apply (rule h3)
         apply (rule a1)
        apply (rule a2)
       apply (rule p2)
      apply (rule sample_detect_day)
     apply (rule h14)
    apply (rule b1)
    done
qed

text \<open>
  Claim C6 as stated fails on the text of the reason: at 3 o'clock the code emits the
  reason with a hyphen, and the text with an en dash that the claim quotes is not among
  the reasons.
\<close>

theorem odd_hour_text_counterexample:
  "strptime sample_env (timestamp night_transfer) =
     Inr \<lparr>year = 2024, month = 3, day = 10, hour = 3, minute = 15, second = 0\<rparr> \<and>
   detect_fraud sample_env sample_store night_transfer None =
     Inr (True,
          [''Blacklisted recipient account'',
           ''Transaction at odd hours (12 AM - 4 AM)'',
           ''Abnormal transaction amount (z-score: 2.50)'',
           ''Geographic drift detected (>500km from last location)''],
          100) \<and>
   spec_odd_hour_text \<notin>
     set [''Blacklisted recipient account'',
           ''Transaction at odd hours (12 AM - 4 AM)'',
           ''Abnormal transaction amount (z-score: 2.50)'',
           ''Geographic drift detected (>500km from last location)'']"
proof -
  have p1: "strptime sample_env (timestamp night_transfer) =
     Inr \<lparr>year = 2024, month = 3, day = 10, hour = 3, minute = 15, second = 0\<rparr>"
    using sample_strptime(1) by (simp add: night_transfer_def)
  have "spec_odd_hour_text \<notin>
     set [''Blacklisted recipient account'',
           ''Transaction at odd hours (12 AM - 4 AM)'',
           ''Abnormal transaction amount (z-score: 2.50)'',
           ''Geographic drift detected (>500km from last location)'']"
    by (simp add: spec_odd_hour_text_def)
  with p1 sample_detect_night_no_ip show ?thesis by (intro conjI)
qed

section \<open>Geographic drift\<close>

text \<open>
  Claim C7. In a returned assessment the drift reason is absent when the query for the
  card type's last transaction finds none. When it finds one, the reason is absent and the
  distance is 0 if either place does not resolve to coordinates; and if both resolve and
  the distance is computed, the reason is present exactly when the distance exceeds 500
  km. When present, the reason occurs once, the verdict is positive and the score is 25
  more than the weights of the other reasons. Where the server's sort does what it is
  bound to, the query finds none exactly when the store holds no transaction of the card
  type, and the one it finds is a transaction of the card type that none of them is newer
  than.
\<close>

theorem geographic_drift_finding:
  assumes "detect_fraud e st t client_ip = Inr (verdict, reasons, score)"
  shows
    "(find_last e st (card_type t) = Inr None \<longrightarrow>
        ''Geographic drift detected (>500km from last location)'' \<notin> set reasons) \<and>
     (\<forall>prior. find_last e st (card_type t) = Inr (Some prior) \<longrightarrow>
        (get_coordinates e (location t) = None \<or> get_coordinates e (location prior) = None \<longrightarrow>
           calculate_distance e (location t) (location prior) = 0 \<and>
           ''Geographic drift detected (>500km from last location)'' \<notin> set reasons) \<and>
        (\<forall>c1 c2 km.
           get_coordinates e (location t) = Some c1 \<and>
           get_coordinates e (location prior) = Some c2 \<and>
           geodesic_km e c1 c2 = Inr km \<longrightarrow>
             calculate_distance e (location t) (location prior) = km \<and>
             (''Geographic drift detected (>500km from last location)'' \<in> set reasons
                \<longleftrightarrow> 500 < km))) \<and>
     (''Geographic drift detected (>500km from last location)'' \<in> set reasons \<longrightarrow>
        verdict \<and>
        count_list reasons ''Geographic drift detected (>500km from last location)'' = 1 \<and>
        score = 25 + sum_list (map finding_weight
                  (remove1 ''Geographic drift detected (>500km from last location)'' reasons))) \<and>
     (sorts_newest_first e
        (filter (\<lambda>d. card_type d = card_type t) (transactions_collection st)) \<longrightarrow>
        (find_last e st (card_type t) = Inr None \<longleftrightarrow>
           \<not> history_query_fails e (card_type t) \<and>
           (\<forall>d \<in> set (transactions_collection st). card_type d \<noteq> card_type t)) \<and>
        (\<forall>prior. find_last e st (card_type t) = Inr (Some prior) \<longrightarrow>
           prior \<in> set (transactions_collection st) \<and> card_type prior = card_type t \<and>
           (\<forall>d \<in> set (transactions_collection st).
               card_type d = card_type t \<longrightarrow> timestamp d \<le> timestamp prior))) \<and>
     finding_weight ''Geographic drift detected (>500km from last location)'' = 25"
proof -
  let ?drift = "''Geographic drift detected (>500km from last location)''"
  from assms have r: "reasons = map fst (findings e st t client_ip)"
    and s: "score = sum_list (map snd (findings e st t client_ip))"
    and v: "verdict = (reasons \<noteq> [] \<or> 30 \<le> score)"
    by (simp_all add: detect_fraud_Inr_iff)
  have mem: "?drift \<in> set reasons \<longleftrightarrow> check_geographic_drift e st (location t) (card_type t)"
    unfolding r by (rule reasons_drift)
  have 1: "find_last e st (card_type t) = Inr None \<longrightarrow> ?drift \<notin> set reasons"
  proof
    assume "find_last e st (card_type t) = Inr None"
    then have "\<not> check_geographic_drift e st (location t) (card_type t)"
      by (rule drift_no_history)
    then show "?drift \<notin> set reasons" by (simp only: mem simp_thms)
  qed
  have 2: "\<forall>prior. find_last e st (card_type t) = Inr (Some prior) \<longrightarrow>
        (get_coordinates e (location t) = None \<or> get_coordinates e (location prior) = None \<longrightarrow>
           calculate_distance e (location t) (location prior) = 0 \<and> ?drift \<notin> set reasons) \<and>
        (\<forall>c1 c2 km.
           get_coordinates e (location t) = Some c1 \<and>
           get_coordinates e (location prior) = Some c2 \<and>
           geodesic_km e c1 c2 = Inr km \<longrightarrow>
             calculate_distance e (location t) (location prior) = km \<and>
             (?drift \<in> set reasons \<longleftrightarrow> 500 < km))"
  proof (intro allI impI)
    fix prior
    assume h: "find_last e st (card_type t) = Inr (Some prior)"
    note d = drift_with_history [OF h, of "location t"]
    have a: "get_coordinates e (location t) = None \<or> get_coordinates e (location prior) = None \<longrightarrow>
           calculate_distance e (location t) (location prior) = 0 \<and> ?drift \<notin> set reasons"
    proof
      assume "get_coordinates e (location t) = None \<or> get_coordinates e (location prior) = None"
      then have z: "calculate_distance e (location t) (location prior) = 0"
        by (rule calculate_distance_unresolved)
      then have "\<not> check_geographic_drift e st (location t) (card_type t)"
        unfolding d by simp
      then have "?drift \<notin> set reasons" by (simp only: mem simp_thms)
      with z show "calculate_distance e (location t) (location prior) = 0 \<and> ?drift \<notin> set reasons"
        by (rule conjI)
    qed
    have b: "\<forall>c1 c2 km.
           get_coordinates e (location t) = Some c1 \<and>
           get_coordinates e (location prior) = Some c2 \<and>
           geodesic_km e c1 c2 = Inr km \<longrightarrow>
             calculate_distance e (location t) (location prior) = km \<and>
             (?drift \<in> set reasons \<longleftrightarrow> 500 < km)"
    proof (intro allI impI)
      fix c1 c2 km
      assume g: "get_coordinates e (location t) = Some c1 \<and>
           get_coordinates e (location prior) = Some c2 \<and> geodesic_km e c1 c2 = Inr km"
      then have k: "calculate_distance e (location t) (location prior) = km"
        by (simp add: calculate_distance_resolved)
      have "(?drift \<in> set reasons) = (500 < km)"
        unfolding mem d k ..
      with k show "calculate_distance e (location t) (location prior) = km \<and>
             (?drift \<in> set reasons \<longleftrightarrow> 500 < km)" by (rule conjI)
    qed
    from a b show "(get_coordinates e (location t) = None \<or>
           get_coordinates e (location prior) = None \<longrightarrow>
           calculate_distance e (location t) (location prior) = 0 \<and> ?drift \<notin> set reasons) \<and>
        (\<forall>c1 c2 km.
           get_coordinates e (location t) = Some c1 \<and>
           get_coordinates e (location prior) = Some c2 \<and>
           geodesic_km e c1 c2 = Inr km \<longrightarrow>
             calculate_distance e (location t) (location prior) = km \<and>
             (?drift \<in> set reasons \<longleftrightarrow> 500 < km))"
      by (rule conjI)
  qed
  have w: "finding_weight ?drift = 25" by (simp add: finding_weight_def)
  have 3: "?drift \<in> set reasons \<longrightarrow>
        verdict \<and> count_list reasons ?drift = 1 \<and>
        score = 25 + sum_list (map finding_weight (remove1 ?drift reasons))"
  proof
    assume m: "?drift \<in> set reasons"
    then have "reasons \<noteq> []" by auto
    with v have "verdict" by simp
    moreover have "count_list reasons ?drift = 1"
      using findings_distinct [of e st t client_ip] m unfolding r by (rule count_list_distinct)
    moreover have "score = 25 + sum_list (map finding_weight (remove1 ?drift reasons))"
    proof -
      have "map finding_weight reasons = map snd (findings e st t client_ip)"
        unfolding r by (rule findings_weights)
      then have sw: "score = sum_list (map finding_weight reasons)"
        using s by (simp only:)
      show ?thesis
        using sum_list_map_remove1 [OF m, of finding_weight] sw w by simp
    qed
    ultimately show "verdict \<and> count_list reasons ?drift = 1 \<and>
        score = 25 + sum_list (map finding_weight (remove1 ?drift reasons))"
      by (intro conjI)
  qed
  have 4: "sorts_newest_first e
        (filter (\<lambda>d. card_type d = card_type t) (transactions_collection st)) \<longrightarrow>
        (find_last e st (card_type t) = Inr None \<longleftrightarrow>
           \<not> history_query_fails e (card_type t) \<and>
           (\<forall>d \<in> set (transactions_collection st). card_type d \<noteq> card_type t)) \<and>
        (\<forall>prior. find_last e st (card_type t) = Inr (Some prior) \<longrightarrow>
           prior \<in> set (transactions_collection st) \<and> card_type prior = card_type t \<and>
           (\<forall>d \<in> set (transactions_collection st).
               card_type d = card_type t \<longrightarrow> timestamp d \<le> timestamp prior))"
  proof
    assume c: "sorts_newest_first e
        (filter (\<lambda>d. card_type d = card_type t) (transactions_collection st))"
    have "\<forall>prior. find_last e st (card_type t) = Inr (Some prior) \<longrightarrow>
           prior \<in> set (transactions_collection st) \<and> card_type prior = card_type t \<and>
           (\<forall>d \<in> set (transactions_collection st).
               card_type d = card_type t \<longrightarrow> timestamp d \<le> timestamp prior)"
      using find_last_newest [OF c] by (intro allI impI)
    with find_last_None_iff [OF c]
    show "(find_last e st (card_type t) = Inr None \<longleftrightarrow>
           \<not> history_query_fails e (card_type t) \<and>
           (\<forall>d \<in> set (transactions_collection st). card_type d \<noteq> card_type t)) \<and>
        (\<forall>prior. find_last e st (card_type t) = Inr (Some prior) \<longrightarrow>
           prior \<in> set (transactions_collection st) \<and> card_type prior = card_type t \<and>
           (\<forall>d \<in> set (transactions_collection st).
               card_type d = card_type t \<longrightarrow> timestamp d \<le> timestamp prior))"
      by (rule conjI)
  qed
  show ?thesis
    apply (intro conjI)
        apply (rule 1)
       apply (rule 2)
      apply (rule 3)
     apply (rule 4)
    apply (rule w)
    done
qed

theorem geographic_drift_finding_witness:
  "detect_fraud sample_env sample_store night_transfer None =
     Inr (True,
          [''Blacklisted recipient account'',
           ''Transaction at odd hours (12 AM - 4 AM)'',
           ''Abnormal transaction amount (z-score: 2.50)'',
           ''Geographic drift detected (>500km from last location)''],
          100) \<and>
   find_last sample_env sample_store (card_type night_transfer) =
     Inr (Some (history_doc ''2024-03-09 10:00:00'' 3 ''Chennai'' ''visa'')) \<and>
   get_coordinates sample_env (location night_transfer) = Some (28, 77) \<and>
   get_coordinates sample_env
     (location (history_doc ''2024-03-09 10:00:00'' 3 ''Chennai'' ''visa'')) = Some (13, 80) \<and>
   geodesic_km sample_env (28, 77) (13, 80) = Inr (168972 / 100) \<and>
   calculate_distance sample_env (location night_transfer)
     (location (history_doc ''2024-03-09 10:00:00'' 3 ''Chennai'' ''visa'')) = 168972 / 100 \<and>
   (''Geographic drift detected (>500km from last location)'' \<in>
     set [''Blacklisted recipient account'',
           ''Transaction at odd hours (12 AM - 4 AM)'',
           ''Abnormal transaction amount (z-score: 2.50)'',
           ''Geographic drift detected (>500km from last location)'']) =
     ((500 :: real) < 168972 / 100) \<and>
   (100 :: int) = 25 + sum_list (map finding_weight
     (remove1 ''Geographic drift detected (>500km from last location)''
        [''Blacklisted recipient account'',
         ''Transaction at odd hours (12 AM - 4 AM)'',
         ''Abnormal transaction amount (z-score: 2.50)'',
         ''Geographic drift detected (>500km from last location)''])) \<and>
   sorts_newest_first sample_env
     (filter (\<lambda>d. card_type d = card_type night_transfer) (transactions_collection sample_store)) \<and>
   history_doc ''2024-03-09 10:00:00'' 3 ''Chennai'' ''visa'' \<in>
     set (transactions_collection sample_store) \<and>
   detect_fraud sample_env sample_store nowhere_purchase None = Inr (False, [], 0) \<and>
   find_last sample_env sample_store (card_type nowhere_purchase) =
     Inr (Some (history_doc ''2024-03-09 10:00:00'' 3 ''Chennai'' ''visa'')) \<and>
   get_coordinates sample_env (location nowhere_purchase) = None \<and>
   calculate_distance sample_env (location nowhere_purchase)
     (location (history_doc ''2024-03-09 10:00:00'' 3 ''Chennai'' ''visa'')) = 0 \<and>
   ''Geographic drift detected (>500km from last location)'' \<notin> set [] \<and>
   detect_fraud sample_env sample_store amex_purchase None = Inr (False, [], 0) \<and>
   find_last sample_env sample_store (card_type amex_purchase) = Inr None"
proof -
  let ?h = "history_doc ''2024-03-09 10:00:00'' 3 ''Chennai'' ''visa''"
  let ?drift = "''Geographic drift detected (>500km from last location)''"
  let ?rs = "[''Blacklisted recipient account'',
           ''Transaction at odd hours (12 AM - 4 AM)'',
           ''Abnormal transaction amount (z-score: 2.50)'', ?drift]"
  have fl: "find_last sample_env sample_store (card_type night_transfer) = Inr (Some ?h)"
    using sample_find_last_visa by (simp add: night_transfer_def)
  have fl': "find_last sample_env sample_store (card_type nowhere_purchase) = Inr (Some ?h)"
    using sample_find_last_visa by (simp add: nowhere_purchase_def day_purchase_def)
  have fa: "find_last sample_env sample_store (card_type amex_purchase) = Inr None"
    using sample_find_last_amex by (simp add: amex_purchase_def)
  have c1: "get_coordinates sample_env (location night_transfer) = Some (28, 77)"
    using sample_coordinates by (simp add: night_transfer_def)
  have c2: "get_coordinates sample_env (location ?h) = Some (13, 80)"
    using sample_coordinates by (simp add: history_doc_def)
  have c3: "get_coordinates sample_env (location nowhere_purchase) = None"
    using sample_coordinates by (simp add: nowhere_purchase_def)
  note T = geographic_drift_finding [OF sample_detect_night_no_ip]
  note a = T [THEN conjunct2, THEN conjunct1, THEN spec, THEN mp, OF fl]
  note a' = a [THEN conjunct2, THEN spec, THEN spec, THEN spec, THEN mp,
      OF conjI [OF c1 conjI [OF c2 sample_geodesic(1)]]]
  have lt: "(500 :: real) < 168972 / 100" by simp
  have m: "?drift \<in> set ?rs"
    using a' [THEN conjunct2] lt by (simp only: simp_thms)
  note sc = T [THEN conjunct2, THEN conjunct2, THEN conjunct1, THEN mp, OF m,
      THEN conjunct2, THEN conjunct2]
  note srt = scenario_sort_sorts
    [of "filter (\<lambda>d. card_type d = card_type night_transfer) (transactions_collection sample_store)"]
  note nw = T [THEN conjunct2, THEN conjunct2, THEN conjunct2, THEN conjunct1, THEN mp, OF srt,
      THEN conjunct2, THEN spec, THEN mp, OF fl, THEN conjunct1]
  note b = geographic_drift_finding [OF sample_detect_nowhere, THEN conjunct2,
      THEN conjunct1, THEN spec, THEN mp, OF fl']
  note b' = b [THEN conjunct1, THEN mp, OF disjI1 [OF c3]]
  show ?thesis
    apply (intro conjI)
                     apply (rule sample_detect_night_no_ip)
                    apply (rule fl)
                   apply (rule c1)
                  apply (rule c2)
                 apply (rule sample_geodesic(1))
                apply (rule a' [THEN conjunct1])
               apply (rule a' [THEN conjunct2])
              apply (rule sc)
             apply (rule srt)
            apply (rule nw)
           apply (rule sample_detect_nowhere)
          apply (rule fl')
         apply (rule c3)
        apply (rule b' [THEN conjunct1])
       apply (rule b' [THEN conjunct2])
      apply (rule sample_detect_amex)
     apply (rule fa)
    done
qed

section \<open>The blacklist feedback write\<close>

text \<open>
  Claim C9. Let a transaction be evaluated through the endpoint with a positive verdict,
  in a store that holds at most one blacklist entry for its recipient account, and then
  evaluated again (store lookups and writes succeeding). The second evaluation also
  returns a positive verdict, and after each of the two the store holds exactly one entry
  for that account, carrying the reason "Fraudulent transaction detected" and the time of
  the latest write; no other entry changes, the collection does not grow with the second
  write, and keys that were unique stay unique.
\<close>

theorem blacklist_upsert_idempotent:
  assumes "length (account_entries st (recipient_account_number t)) \<le> 1"
    and "check_fraud_endpoint e1 st t u1 = (st1, Inr r1)" and "resp_is_fraud r1"
    and "\<not> account_lookup_raises e2 t" and "\<not> insert_fails e2" and "\<not> update_fails e2"
  shows "\<exists>st2 r2.
           check_fraud_endpoint e2 st1 t u2 = (st2, Inr r2) \<and> resp_is_fraud r2 \<and>
           account_entries st1 (recipient_account_number t) =
             [fraud_entry (recipient_account_number t) (now_added_at e1)] \<and>
           account_entries st2 (recipient_account_number t) =
             [fraud_entry (recipient_account_number t) (now_added_at e2)] \<and>
           length (account_entries st2 (recipient_account_number t)) = 1 \<and>
           other_entries st1 (recipient_account_number t) =
             other_entries st (recipient_account_number t) \<and>
           other_entries st2 (recipient_account_number t) =
             other_entries st (recipient_account_number t) \<and>
           length (blacklist_collection st2) = length (blacklist_collection st1) \<and>
           (distinct (map bl_key (blacklist_collection st)) \<longrightarrow>
              distinct (map bl_key (blacklist_collection st2)))"
proof -
  let ?v = "recipient_account_number t"
  note b1 = check_fraud_endpoint_fraud [OF assms(2) assms(3)]
  note a1 = account_entries_update [OF b1 assms(1)]
  have one1: "length (account_entries st1 ?v) \<le> 1" by (simp add: a1(1))
  have l1: "listed st1 ''account'' ?v" by (simp add: listed_account_entries a1(1))
  from check_fraud_endpoint_listed [OF l1 assms(4) assms(5) assms(6), of u2]
  obtain st2 r2 where e2: "check_fraud_endpoint e2 st1 t u2 = (st2, Inr r2)"
    and f2: "resp_is_fraud r2" by blast
  note b2 = check_fraud_endpoint_fraud [OF e2 f2]
  note a2 = account_entries_update [OF b2 one1]
  have ne1: "account_entries st1 ?v \<noteq> []" by (simp add: a1(1))
  have len: "length (account_entries st2 ?v) = 1" by (simp add: a2(1))
  have oth: "other_entries st2 ?v = other_entries st ?v" by (simp only: a2(2) a1(2))
  have dis: "distinct (map bl_key (blacklist_collection st)) \<longrightarrow>
              distinct (map bl_key (blacklist_collection st2))"
    using a1(3) a2(3) by blast
  show ?thesis
    apply (rule exI [of _ st2])
    apply (rule exI [of _ r2])
    apply (intro conjI)
            apply (rule e2)
           apply (rule f2)
          apply (rule a1(1))
         apply (rule a2(1))
        apply (rule len)
       apply (rule a1(2))
      apply (rule oth)
     apply (rule a2(4) [OF ne1])
    apply (rule dis)
    done
qed

theorem blacklist_upsert_idempotent_witness:
  "length (account_entries sample_store (recipient_account_number night_purchase)) \<le> 1 \<and>
   check_fraud_endpoint sample_env sample_store night_purchase ''alice'' =
     (fst (check_fraud_endpoint sample_env sample_store night_purchase ''alice''),
      Inr \<lparr>transaction_id = ''T-5'', timestamp = ''2024-03-10 03:15:00'',
           amount = Finite 2,
           location = ''Chennai'', card_type = ''visa'', currency = ''USD'',
           recipient_account_number = ''ACC000000001'',
           resp_is_fraud = True,
           resp_fraud_reasons = [''Transaction at odd hours (12 AM - 4 AM)''],
           resp_risk_score = 15\<rparr>) \<and>
   \<not> account_lookup_raises later_env night_purchase \<and>
   \<not> insert_fails later_env \<and> \<not> update_fails later_env \<and>
   account_entries sample_store ''ACC000000001'' = [] \<and>
   account_entries (fst (check_fraud_endpoint sample_env sample_store night_purchase ''alice''))
     ''ACC000000001'' = [fraud_entry ''ACC000000001'' 1001] \<and>
   (\<exists>st2 r2.
      check_fraud_endpoint later_env
        (fst (check_fraud_endpoint sample_env sample_store night_purchase ''alice''))
        night_purchase ''bob'' = (st2, Inr r2) \<and>
      resp_is_fraud r2 \<and>
      account_entries st2 ''ACC000000001'' = [fraud_entry ''ACC000000001'' 2001] \<and>
      length (account_entries st2 ''ACC000000001'') = 1)"
proof -
  let ?st1 = "fst (check_fraud_endpoint sample_env sample_store night_purchase ''alice'')"
  have rc: "recipient_account_number night_purchase = ''ACC000000001''"
    by (simp add: night_purchase_def day_purchase_def)
  have h1: "length (account_entries sample_store (recipient_account_number night_purchase)) \<le> 1"
    by (simp add: rc sample_account_entries)
  have h3: "resp_is_fraud \<lparr>transaction_id = ''T-5'', timestamp = ''2024-03-10 03:15:00'',
           amount = Finite 2, location = ''Chennai'', card_type = ''visa'', currency = ''USD'',
           recipient_account_number = ''ACC000000001'',
           resp_is_fraud = True,
           resp_fraud_reasons = [''Transaction at odd hours (12 AM - 4 AM)''],
           resp_risk_score = 15\<rparr>" by simp
  from blacklist_upsert_idempotent [OF h1 sample_first_run h3 sample_endpoint_env(5)
      sample_endpoint_env(3) sample_endpoint_env(4), of "''bob''"]
  obtain st2 r2 where
    a: "check_fraud_endpoint later_env ?st1 night_purchase ''bob'' = (st2, Inr r2)"
    and b: "resp_is_fraud r2"
    and c: "account_entries ?st1 (recipient_account_number night_purchase) =
             [fraud_entry (recipient_account_number night_purchase) (now_added_at sample_env)]"
    and d: "account_entries st2 (recipient_account_number night_purchase) =
             [fraud_entry (recipient_account_number night_purchase) (now_added_at later_env)]"
    and e: "length (account_entries st2 (recipient_account_number night_purchase)) = 1"
    by blast
  have c': "account_entries ?st1 ''ACC000000001'' = [fraud_entry ''ACC000000001'' 1001]"
    using c by (simp only: rc sample_endpoint_env)
  have d': "account_entries st2 ''ACC000000001'' = [fraud_entry ''ACC000000001'' 2001]"
    using d by (simp only: rc sample_endpoint_env)
  have e': "length (account_entries st2 ''ACC000000001'') = 1"
    using e by (simp only: rc)
  have ex: "\<exists>st2 r2.
      check_fraud_endpoint later_env ?st1 night_purchase ''bob'' = (st2, Inr r2) \<and>
      resp_is_fraud r2 \<and>
      account_entries st2 ''ACC000000001'' = [fraud_entry ''ACC000000001'' 2001] \<and>
      length (account_entries st2 ''ACC000000001'') = 1"
    using a b d' e' by blast
  show ?thesis
    apply (intro conjI)
           apply (rule h1)
          apply (rule sample_first_run)
         apply (rule sample_endpoint_env(5))
        apply (rule sample_endpoint_env(3))
       apply (rule sample_endpoint_env(4))
      apply (rule sample_account_entries)
     apply (rule c')
    apply (rule ex)
    done
qed


section \<open>The endpoint never passes a client IP\<close>

text \<open>
  Claim C10. Whatever \<open>check_fraud_endpoint\<close> returns, its reasons do not contain
  "Blacklisted IP address", and its score is made of the four other weights only (40, 15,
  20, 25): the endpoint calls \<open>detect_fraud\<close> with no client IP.
\<close>

theorem endpoint_never_reports_blacklisted_ip:
  assumes "check_fraud_endpoint e st t username = (st', Inr response)"
  shows "''Blacklisted IP address'' \<notin> set (resp_fraud_reasons response) \<and>
         resp_risk_score response =
           of_int ((if listed st ''account'' (recipient_account_number t) then 40 else 0) +
                   (if is_odd_hour e (timestamp t) then 15 else 0) +
                   (if float_gt (calculate_z_score e st (amount t) (card_type t)) 2 then 20 else 0) +
                   (if check_geographic_drift e st (location t) (card_type t) then 25 else 0)) \<and>
         resp_risk_score response =
           of_int (sum_list (map finding_weight (resp_fraud_reasons response)))"
proof -
  from check_fraud_endpoint_Inr [OF assms] obtain verdict reasons score where
    d: "detect_fraud e st t None = Inr (verdict, reasons, score)"
    and r: "resp_fraud_reasons response = reasons"
    and s: "resp_risk_score response = of_int score"
    by blast
  from d have r': "reasons = map fst (findings e st t None)"
    and s': "score = sum_list (map snd (findings e st t None))"
    by (simp_all add: detect_fraud_Inr_iff)
  have "\<not> ip_listed st None" by (simp add: ip_listed_def)
  then have 1: "''Blacklisted IP address'' \<notin> set (resp_fraud_reasons response)"
    unfolding r r' by (simp only: reasons_ip simp_thms)
  have 2: "score = (if listed st ''account'' (recipient_account_number t) then 40 else 0) +
                   (if is_odd_hour e (timestamp t) then 15 else 0) +
                   (if float_gt (calculate_z_score e st (amount t) (card_type t)) 2 then 20 else 0) +
                   (if check_geographic_drift e st (location t) (card_type t) then 25 else 0)"
    unfolding s' by (simp add: findings_def ip_listed_def)
  have "map finding_weight reasons = map snd (findings e st t None)"
    unfolding r' by (rule findings_weights)
  then have 3: "score = sum_list (map finding_weight reasons)"
    using s' by (simp only:)
  show ?thesis
    apply (intro conjI)
      apply (rule 1)
     apply (simp only: s 2)
    apply (simp only: s r 3)
    done
qed

theorem endpoint_never_reports_blacklisted_ip_witness:
  "listed sample_store ''ip'' ''192.168.1.100'' \<and>
   check_fraud_endpoint sample_env sample_store night_transfer ''alice'' =
     (fst (check_fraud_endpoint sample_env sample_store night_transfer ''alice''),
      Inr \<lparr>transaction_id = ''T-1'', timestamp = ''2024-03-10 03:15:00'',
           amount = Finite (9 / 2),
           location = ''Delhi'', card_type = ''visa'', currency = ''USD'',
           recipient_account_number = ''ACC123456789'',
           resp_is_fraud = True,
           resp_fraud_reasons =
             [''Blacklisted recipient account'',
              ''Transaction at odd hours (12 AM - 4 AM)'',
              ''Abnormal transaction amount (z-score: 2.50)'',
              ''Geographic drift detected (>500km from last location)''],
           resp_risk_score = 100\<rparr>) \<and>
   ''Blacklisted IP address'' \<notin>
     set [''Blacklisted recipient account'',
          ''Transaction at odd hours (12 AM - 4 AM)'',
          ''Abnormal transaction amount (z-score: 2.50)'',
          ''Geographic drift detected (>500km from last location)''] \<and>
   (100 :: real) = of_int (sum_list (map finding_weight
         [''Blacklisted recipient account'',
          ''Transaction at odd hours (12 AM - 4 AM)'',
          ''Abnormal transaction amount (z-score: 2.50)'',
          ''Geographic drift detected (>500km from last location)'']))"
proof -
  note t = endpoint_never_reports_blacklisted_ip [OF sample_endpoint_night_transfer]
  have 1: "''Blacklisted IP address'' \<notin>
     set [''Blacklisted recipient account'',
          ''Transaction at odd hours (12 AM - 4 AM)'',
          ''Abnormal transaction amount (z-score: 2.50)'',
          ''Geographic drift detected (>500km from last location)'']"
    using t [THEN conjunct1] by simp
  have 2: "(100 :: real) = of_int (sum_list (map finding_weight
         [''Blacklisted recipient account'',
          ''Transaction at odd hours (12 AM - 4 AM)'',
          ''Abnormal transaction amount (z-score: 2.50)'',
          ''Geographic drift detected (>500km from last location)'']))"
    using t [THEN conjunct2, THEN conjunct2] by simp
  show ?thesis
    apply (intro conjI)
       apply (rule sample_listed(1))
      apply (rule sample_endpoint_night_transfer)
     apply (rule 1)
    apply (rule 2)
    done
qed


end
